theory Spec2Isabelle
  imports Complex_Main
begin

section \<open>Geometry primitives\<close>

text \<open>
  The program keeps every rectangle as a toolkit \<open>QRect\<close> built from integer
  \<open>x, y, width, height\<close>. The accessors below are the toolkit's documented ones: the toolkit
  stores the corners \<open>(x1, y1) = (x, y)\<close> and \<open>(x2, y2) = (x + width - 1, y + height - 1)\<close>,
  so \<open>right()\<close> and \<open>bottom()\<close> name the last pixel column and row of the rectangle, not
  the coordinate of its far boundary, and \<open>center()\<close> is \<open>((x1 + x2) / 2, (y1 + y2) / 2)\<close>
  with the integer division of C++, which truncates towards zero.
  Two rectangles compare equal exactly when their four numbers agree.
\<close>

record QRect =
  qx :: int
  qy :: int
  qwidth :: int
  qheight :: int

definition mkRect :: "int \<Rightarrow> int \<Rightarrow> int \<Rightarrow> int \<Rightarrow> QRect" where
  "mkRect a b w h = \<lparr>qx = a, qy = b, qwidth = w, qheight = h\<rparr>"

definition left :: "QRect \<Rightarrow> int" where
  "left r = qx r"

definition top :: "QRect \<Rightarrow> int" where
  "top r = qy r"

definition right :: "QRect \<Rightarrow> int" where
  "right r = qx r + qwidth r - 1"

definition bottom :: "QRect \<Rightarrow> int" where
  "bottom r = qy r + qheight r - 1"

definition trunc_half :: "int \<Rightarrow> int" where
  "trunc_half a = (if 0 \<le> a then a div 2 else - ((- a) div 2))"

definition center_x :: "QRect \<Rightarrow> int" where
  "center_x r = trunc_half (left r + right r)"

definition center_y :: "QRect \<Rightarrow> int" where
  "center_y r = trunc_half (top r + bottom r)"

definition translated :: "QRect \<Rightarrow> int \<Rightarrow> int \<Rightarrow> QRect" where
  "translated r dx dy = r\<lparr>qx := qx r + dx, qy := qy r + dy\<rparr>"

definition isNull :: "QRect \<Rightarrow> bool" where
  "isNull r \<longleftrightarrow> qwidth r = 0 \<and> qheight r = 0"

section \<open>Spacing overlay\<close>

text \<open>
  \<open>SpacingOverlay.paintEvent\<close> (spacing_overlay.py): the part that decides which
  measurements are drawn. A line is the tuple \<open>(x1, y1, x2, y2)\<close>; each measurement that
  is handed to \<open>_draw_measurement\<close> is recorded with its line, its value and the
  \<open>is_horizontal\<close> flag, in drawing order. \<open>rect1\<close> is the source (the selected
  frame), \<open>rect2\<close> the target; the method returns at once when either is unset
  (\<open>None\<close>, or a null rectangle, which the binding treats as false).
\<close>

type_synonym line = "int \<times> int \<times> int \<times> int"

record measurement =
  m_line :: line
  m_value :: int
  m_horizontal :: bool

definition h_measure :: "QRect \<Rightarrow> QRect \<Rightarrow> (line \<times> int) option" where
  "h_measure r1 r2 =
     (if right r1 < left r2
        then Some ((right r1, center_y r2, left r2, center_y r2), left r2 - right r1)
      else if left r1 > right r2
        then Some ((right r2, center_y r2, left r1, center_y r2), left r1 - right r2)
      else None)"

definition v_measure :: "QRect \<Rightarrow> QRect \<Rightarrow> (line \<times> int) option" where
  "v_measure r1 r2 =
     (if bottom r1 < top r2
        then Some ((center_x r2, bottom r1, center_x r2, top r2), top r2 - bottom r1)
      else if top r1 > bottom r2
        then Some ((center_x r2, bottom r2, center_x r2, top r1), top r1 - bottom r2)
      else None)"

definition spacing_paintEvent :: "QRect option \<Rightarrow> QRect option \<Rightarrow> measurement list" where
  "spacing_paintEvent rect1 rect2 =
     (case (rect1, rect2) of
        (Some r1, Some r2) \<Rightarrow>
          (if isNull r1 \<or> isNull r2 then []
           else
             (case h_measure r1 r2 of
                None \<Rightarrow> []
              | Some (l, d) \<Rightarrow> [\<lparr>m_line = l, m_value = d, m_horizontal = True\<rparr>]) @
             (case v_measure r1 r2 of
                None \<Rightarrow> []
              | Some (l, d) \<Rightarrow> [\<lparr>m_line = l, m_value = d, m_horizontal = False\<rparr>]))
      | _ \<Rightarrow> [])"

section \<open>Values, colours and configuration\<close>

text \<open>
  Python attributes are dynamically typed, and a project file can put any JSON value into
  any field. \<open>json\<close> is the type of the values that \<open>json.load\<close> returns (an object
  keeps its members in document order, as a Python \<open>dict\<close> does); floating-point numbers
  are left out, the program never writes one. \<open>truthy\<close> is Python's truth value.
\<close>

datatype json =
    JNull
  | JBool bool
  | JInt int
  | JStr string
  | JList "json list"
  | JObj "(string \<times> json) list"

definition truthy :: "json \<Rightarrow> bool" where
  "truthy v =
     (case v of
        JNull \<Rightarrow> False
      | JBool b \<Rightarrow> b
      | JInt i \<Rightarrow> i \<noteq> 0
      | JStr s \<Rightarrow> s \<noteq> []
      | JList xs \<Rightarrow> xs \<noteq> []
      | JObj kvs \<Rightarrow> kvs \<noteq> [])"

text \<open>
  The exceptions that the modelled code can raise.
\<close>

datatype py_error =
    ValueError
  | TypeError
  | AttributeError
  | KeyError
  | OverflowError
  | FileNotFoundError

text \<open>
  A colour attribute holds either a toolkit colour object \<open>QColor(r, g, b, a)\<close> or whatever
  value was passed in (a hex string, when the frame comes from a project file).
\<close>

datatype color = QColor int int int int | ColorValue json

definition MIN_SIZE :: int where
  "MIN_SIZE = 10"

definition MAX_SIZE :: int where
  "MAX_SIZE = 4000"

definition MARGIN_RESIZE :: int where
  "MARGIN_RESIZE = 20"

definition COLOR_BG :: color where
  "COLOR_BG = QColor 0 180 255 40"

definition COLOR_BORDER :: color where
  "COLOR_BORDER = QColor 0 180 255 220"

definition FRAME_COLORS :: "(color \<times> color) list" where
  "FRAME_COLORS =
     [(QColor 0 180 255 40, QColor 0 180 255 220),
      (QColor 46 204 113 40, QColor 46 204 113 220),
      (QColor 231 76 60 40, QColor 231 76 60 220),
      (QColor 155 89 182 40, QColor 155 89 182 220),
      (QColor 241 196 15 40, QColor 241 196 15 220),
      (QColor 230 126 34 40, QColor 230 126 34 220),
      (QColor 26 188 156 40, QColor 26 188 156 220)]"

datatype ResizeMode =
    NONE
  | MOVE
  | RESIZE_LEFT
  | RESIZE_RIGHT
  | RESIZE_TOP
  | RESIZE_BOTTOM
  | RESIZE_TOP_LEFT
  | RESIZE_TOP_RIGHT
  | RESIZE_BOTTOM_LEFT
  | RESIZE_BOTTOM_RIGHT

section \<open>The measurement frame\<close>

text \<open>
  \<open>MeasureFrame\<close> (measure_overlay_external.py) is a top-level toolkit widget. The record holds
  the attributes the operations below read or write. \<open>oid\<close> stands for the identity of the
  Python object: two frames are the same frame exactly when they are the same object, whatever
  their attributes hold. \<open>geom\<close> is the widget's \<open>geometry()\<close>, \<open>visible\<close> its
  \<open>isVisible()\<close>.
\<close>

record MeasureFrame =
  oid :: nat
  geom :: QRect
  title :: json
  frame_number :: int
  corner_radii :: json
  radius_active :: bool
  is_locked :: json
  visible :: bool
  intended_visible :: bool
  bg_color :: color
  border_color :: color
  fill_enabled :: bool
  show_frame_name :: bool
  show_frame_size :: bool
  drag_mode :: ResizeMode
  start_geom :: QRect
  start_mouse :: "int \<times> int"
  is_dragging :: bool

text \<open>
  \<open>_init_frame\<close> gives every frame the size limits
  \<open>setMinimumSize(MIN_SIZE, MIN_SIZE)\<close> and \<open>setMaximumSize(MAX_SIZE, MAX_SIZE)\<close>. The toolkit
  applies them to every size it is asked to set: \<open>setGeometry\<close> and \<open>resize\<close> first cap the
  requested width and height at the maximum and then raise them to the minimum;
  \<open>move\<close> changes the position only.
\<close>

definition bounded :: "int \<Rightarrow> int" where
  "bounded w = max (min w MAX_SIZE) MIN_SIZE"

definition setGeometry :: "MeasureFrame \<Rightarrow> int \<Rightarrow> int \<Rightarrow> int \<Rightarrow> int \<Rightarrow> MeasureFrame" where
  "setGeometry f a b w h = f\<lparr>geom := mkRect a b (bounded w) (bounded h)\<rparr>"

definition resize :: "MeasureFrame \<Rightarrow> int \<Rightarrow> int \<Rightarrow> MeasureFrame" where
  "resize f w h = f\<lparr>geom := mkRect (qx (geom f)) (qy (geom f)) (bounded w) (bounded h)\<rparr>"

definition move :: "MeasureFrame \<Rightarrow> int \<Rightarrow> int \<Rightarrow> MeasureFrame" where
  "move f a b = f\<lparr>geom := mkRect a b (qwidth (geom f)) (qheight (geom f))\<rparr>"

text \<open>
  \<open>MeasureFrame.wheelEvent\<close>. \<open>delta\<close> is \<open>event.angleDelta().y()\<close>, \<open>s_rect\<close> the
  available geometry of the screen under the pointer (or of the primary screen).
\<close>

definition wheelEvent :: "MeasureFrame \<Rightarrow> int \<Rightarrow> QRect \<Rightarrow> MeasureFrame" where
  "wheelEvent f delta s_rect =
     (let step = (if delta > 0 then 10 else - 10);
          rect = geom f;
          nw = max MIN_SIZE (qwidth rect + step);
          nh = max MIN_SIZE (qheight rect + step);
          nx = center_x rect - nw div 2;
          ny = center_y rect - nh div 2;
          nx = (if nx < left s_rect then left s_rect else nx);
          ny = (if ny < top s_rect then top s_rect else ny);
          nw = (if nx + nw > right s_rect then right s_rect - nx else nw);
          nh = (if ny + nh > bottom s_rect then bottom s_rect - ny else nh);
          nw = max MIN_SIZE nw;
          nh = max MIN_SIZE nh
      in setGeometry f nx ny nw nh)"

text \<open>
  \<open>MeasureFrame._perform_drag\<close>. \<open>curr_mouse\<close> is the global pointer position,
  \<open>s_rect\<close> the available geometry of the screen under it (or of the primary screen).
\<close>

definition perform_drag :: "MeasureFrame \<Rightarrow> int \<times> int \<Rightarrow> QRect \<Rightarrow> MeasureFrame" where
  "perform_drag f curr_mouse s_rect =
     (let dx = fst curr_mouse - fst (start_mouse f);
          dy = snd curr_mouse - snd (start_mouse f)
      in if drag_mode f = MOVE then
           (let new_x = left (start_geom f) + dx;
                new_y = top (start_geom f) + dy;
                x = max (left s_rect) (min (right s_rect - qwidth (geom f)) new_x);
                y = max (top s_rect) (min (bottom s_rect - qheight (geom f)) new_y)
            in move f x y)
         else
           (let orig = start_geom f;
                (nx, nw) =
                  (if drag_mode f \<in> {RESIZE_LEFT, RESIZE_TOP_LEFT, RESIZE_BOTTOM_LEFT} then
                     (let nw = max MIN_SIZE (qwidth orig - dx);
                          nx = max (left s_rect) (right orig - nw);
                          nw = right orig - nx
                      in (nx, nw))
                   else if drag_mode f \<in> {RESIZE_RIGHT, RESIZE_TOP_RIGHT, RESIZE_BOTTOM_RIGHT} then
                     (let nw = max MIN_SIZE (qwidth orig + dx);
                          nw = (if left orig + nw > right s_rect
                                then right s_rect - left orig else nw)
                      in (qx orig, nw))
                   else (qx orig, qwidth orig));
                (ny, nh) =
                  (if drag_mode f \<in> {RESIZE_TOP, RESIZE_TOP_LEFT, RESIZE_TOP_RIGHT} then
                     (let nh = max MIN_SIZE (qheight orig - dy);
                          ny = max (top s_rect) (bottom orig - nh);
                          nh = bottom orig - ny
                      in (ny, nh))
                   else if drag_mode f \<in> {RESIZE_BOTTOM, RESIZE_BOTTOM_LEFT, RESIZE_BOTTOM_RIGHT} then
                     (let nh = max MIN_SIZE (qheight orig + dy);
                          nh = (if top orig + nh > bottom s_rect
                                then bottom s_rect - top orig else nh)
                      in (qy orig, nh))
                   else (qy orig, qheight orig))
            in setGeometry f nx ny nw nh))"

text \<open>
  \<open>MeasureFrame._on_dimension_input\<close>. \<open>s_rect\<close> is the available geometry of the screen
  under the frame's centre (or of the primary screen).
\<close>

definition on_dimension_input :: "MeasureFrame \<Rightarrow> string \<Rightarrow> int \<Rightarrow> QRect \<Rightarrow> MeasureFrame" where
  "on_dimension_input f axis v s_rect =
     (let val = max MIN_SIZE v
      in if axis = ''width'' then
           (let max_w = right s_rect - qx (geom f);
                val = min val max_w
            in resize f val (qheight (geom f)))
         else
           (let max_h = bottom s_rect - qy (geom f);
                val = min val max_h
            in resize f (qwidth (geom f)) val))"

text \<open>
  \<open>FrameManager._handle_move_frame\<close> (manager.py), from the point where the frame object has
  been found: the sidebar passes the frame object itself as \<open>frame_id\<close>. \<open>shift\<close> says
  whether the Shift modifier is held, \<open>screen_geo\<close> is the available geometry of the screen
  under the frame's centre (or of the primary screen).
\<close>

definition handle_move_frame :: "MeasureFrame \<Rightarrow> string \<Rightarrow> bool \<Rightarrow> QRect \<Rightarrow> MeasureFrame" where
  "handle_move_frame frame direction shift screen_geo =
     (if truthy (is_locked frame) then frame
      else
        (let step = (if shift then 10 else 1);
             px = qx (geom frame);
             py = qy (geom frame);
             (px, py) =
               (if direction = ''up'' then (px, py - step)
                else if direction = ''down'' then (px, py + step)
                else if direction = ''left'' then (px - step, py)
                else if direction = ''right'' then (px + step, py)
                else (px, py));
             x = max (left screen_geo) (min (right screen_geo - qwidth (geom frame)) px);
             y = max (top screen_geo) (min (bottom screen_geo - qheight (geom frame)) py)
         in move frame x y))"

text \<open>
  \<open>inside r s\<close>: the rectangle \<open>r\<close> lies fully inside \<open>s\<close>, edge by edge, in the
  toolkit's own edge coordinates.
\<close>

definition inside :: "QRect \<Rightarrow> QRect \<Rightarrow> bool" where
  "inside r s \<longleftrightarrow>
     left s \<le> left r \<and> top s \<le> top r \<and> right r \<le> right s \<and> bottom r \<le> bottom s"

text \<open>
  The far boundaries of a rectangle, \<open>x + width\<close> and \<open>y + height\<close>: the coordinates
  that the specification calls its right and bottom.
\<close>

definition far_right :: "QRect \<Rightarrow> int" where
  "far_right r = qx r + qwidth r"

definition far_bottom :: "QRect \<Rightarrow> int" where
  "far_bottom r = qy r + qheight r"

section \<open>Creating a frame\<close>

text \<open>
  \<open>str(n)\<close> for an integer: its decimal digits, with a leading minus sign when negative.
\<close>

fun str_nat :: "nat \<Rightarrow> string" where
  "str_nat n =
     (if n < 10 then [''0123456789'' ! n]
      else str_nat (n div 10) @ [''0123456789'' ! (n mod 10)])"

definition str_int :: "int \<Rightarrow> string" where
  "str_int i = (if i < 0 then CHR ''-'' # str_nat (nat (- i)) else str_nat (nat i))"

definition default_title :: "int \<Rightarrow> json" where
  "default_title n = JStr (''Frame '' @ str_int n)"

text \<open>
  The manager's \<open>advanced_settings\<close>; all five keys are set when the manager is created.
\<close>

record Settings =
  radius_curve :: bool
  fill_frame :: bool
  show_frame_name_setting :: bool
  show_frame_size_setting :: bool
  screenshot :: bool

definition color_truthy :: "color \<Rightarrow> bool" where
  "color_truthy c = (case c of QColor r g b a \<Rightarrow> True | ColorValue v \<Rightarrow> truthy v)"

definition zero_radii :: json where
  "zero_radii = JObj [(''tl'', JInt 0), (''tr'', JInt 0), (''bl'', JInt 0), (''br'', JInt 0)]"

text \<open>
  \<open>MeasureFrame.__init__\<close> with \<open>_init_frame\<close> and \<open>_init_state\<close>; \<open>i\<close> is the identity
  of the new object. A new widget is hidden, sits at the origin and is resized to
  \<open>400 \<times> 250\<close>.
\<close>

definition MeasureFrame_init :: "nat \<Rightarrow> color \<Rightarrow> color \<Rightarrow> int \<Rightarrow> Settings \<Rightarrow> MeasureFrame" where
  "MeasureFrame_init i bg border number initial_settings =
     \<lparr>oid = i,
      geom = mkRect 0 0 (bounded 400) (bounded 250),
      title = default_title number,
      frame_number = number,
      corner_radii = zero_radii,
      radius_active = False,
      is_locked = JBool False,
      visible = False,
      intended_visible = True,
      bg_color = (if color_truthy bg then bg else COLOR_BG),
      border_color = (if color_truthy border then border else COLOR_BORDER),
      fill_enabled = fill_frame initial_settings,
      show_frame_name = show_frame_name_setting initial_settings,
      show_frame_size = show_frame_size_setting initial_settings,
      drag_mode = NONE,
      start_geom = mkRect 0 0 0 0,
      start_mouse = (0, 0),
      is_dragging = False\<rparr>"

definition default_settings :: Settings where
  "default_settings =
     \<lparr>radius_curve = False, fill_frame = True, show_frame_name_setting = True,
      show_frame_size_setting = True, screenshot = False\<rparr>"

section \<open>Smart guides\<close>

text \<open>
  \<open>SmartGuides.update_guides\<close> (smart_guides.py) works on Python floats obtained from the
  integer geometry: an edge is \<open>float(x)\<close> or \<open>float(x + width)\<close>, a centre adds
  \<open>width / 2.0\<close>. All of these are integers or half-integers, which the floating-point format
  holds exactly, so they are modelled as rationals.
\<close>

type_synonym span = "rat \<times> rat"

type_synonym guide = "rat \<times> rat \<times> rat \<times> rat"

definition x1 :: "QRect \<Rightarrow> rat" where
  "x1 r = of_int (qx r)"

definition x2 :: "QRect \<Rightarrow> rat" where
  "x2 r = of_int (qx r + qwidth r)"

definition xc :: "QRect \<Rightarrow> rat" where
  "xc r = x1 r + of_int (qwidth r) / 2"

definition y1 :: "QRect \<Rightarrow> rat" where
  "y1 r = of_int (qy r)"

definition y2 :: "QRect \<Rightarrow> rat" where
  "y2 r = of_int (qy r + qheight r)"

definition yc :: "QRect \<Rightarrow> rat" where
  "yc r = y1 r + of_int (qheight r) / 2"

text \<open>
  The coordinates in the order in which the loops visit them: left, centre, right and
  top, centre, bottom (\<open>m_points_x\<close>, \<open>r_points_x\<close>, \<open>m_points_y\<close>, \<open>r_points_y\<close>).
\<close>

definition points_x :: "QRect \<Rightarrow> rat list" where
  "points_x r = [x1 r, xc r, x2 r]"

definition points_y :: "QRect \<Rightarrow> rat list" where
  "points_y r = [y1 r, yc r, y2 r]"

definition span_x :: "QRect \<Rightarrow> span" where
  "span_x r = (x1 r, x2 r)"

definition span_y :: "QRect \<Rightarrow> span" where
  "span_y r = (y1 r, y2 r)"

definition tol :: rat where
  "tol = 1"

text \<open>
  \<open>matches_x\<close> and \<open>matches_y\<close> are dictionaries from a coordinate to the list of spans
  collected for it. A Python dictionary keeps its keys in insertion order, so it is an
  association list with each key once. \<open>add_spans d k vs\<close> is
  \<open>if k not in d: d[k] = []\<close> followed by appending the spans \<open>vs\<close> to \<open>d[k]\<close>.
\<close>

type_synonym matches = "(rat \<times> span list) list"

fun add_spans :: "matches \<Rightarrow> rat \<Rightarrow> span list \<Rightarrow> matches" where
  "add_spans [] k vs = [(k, vs)]"
| "add_spans ((k', ss) # d) k vs =
     (if k' = k then (k', ss @ vs) # d else (k', ss) # add_spans d k vs)"

text \<open>
  The two nested loops over the moving frame's coordinates and the other frame's coordinates
  of one axis; \<open>m_span\<close> and \<open>r_span\<close> are the extents of the two frames on the other axis.
\<close>

definition check_alignments ::
    "rat list \<Rightarrow> span \<Rightarrow> rat list \<Rightarrow> span \<Rightarrow> matches \<Rightarrow> matches" where
  "check_alignments m_points m_span r_points r_span d =
     fold (\<lambda>m_val. fold (\<lambda>rv d. if \<bar>m_val - rv\<bar> \<le> tol
                                     then add_spans d m_val [m_span, r_span] else d) r_points)
       m_points d"

text \<open>The loop over \<open>other_rects\<close>; a rectangle equal to the moving one is skipped.\<close>

definition collect_matches :: "QRect \<Rightarrow> QRect list \<Rightarrow> matches \<times> matches" where
  "collect_matches moving_rect other_rects =
     fold (\<lambda>r (matches_x, matches_y).
             if r = moving_rect then (matches_x, matches_y)
             else (check_alignments (points_x moving_rect) (span_y moving_rect)
                     (points_x r) (span_y r) matches_x,
                   check_alignments (points_y moving_rect) (span_x moving_rect)
                     (points_y r) (span_x r) matches_y))
       other_rects ([], [])"

text \<open>
  Python's \<open>min\<close> and \<open>max\<close> of a sequence raise \<open>ValueError\<close> when it is empty.
\<close>

fun py_min :: "rat list \<Rightarrow> py_error + rat" where
  "py_min [] = Inl ValueError"
| "py_min (v # vs) = Inr (fold min vs v)"

fun py_max :: "rat list \<Rightarrow> py_error + rat" where
  "py_max [] = Inl ValueError"
| "py_max (v # vs) = Inr (fold max vs v)"

text \<open>
  The two loops that turn the groups into guide lines \<open>(x1, y1, x2, y2)\<close>: a vertical line
  \<open>(x, y_min, x, y_max)\<close> for each entry of \<open>matches_x\<close>, a horizontal line
  \<open>(x_min, y, x_max, y)\<close> for each entry of \<open>matches_y\<close>.
\<close>

fun vertical_lines :: "matches \<Rightarrow> py_error + guide list" where
  "vertical_lines [] = Inr []"
| "vertical_lines ((x, spans) # d) =
     (case py_min (map fst spans) of
        Inl e \<Rightarrow> Inl e
      | Inr y_min \<Rightarrow>
          (case py_max (map snd spans) of
             Inl e \<Rightarrow> Inl e
           | Inr y_max \<Rightarrow>
               (case vertical_lines d of
                  Inl e \<Rightarrow> Inl e
                | Inr gs \<Rightarrow> Inr ((x, y_min, x, y_max) # gs))))"

fun horizontal_lines :: "matches \<Rightarrow> py_error + guide list" where
  "horizontal_lines [] = Inr []"
| "horizontal_lines ((y, spans) # d) =
     (case py_min (map fst spans) of
        Inl e \<Rightarrow> Inl e
      | Inr x_min \<Rightarrow>
          (case py_max (map snd spans) of
             Inl e \<Rightarrow> Inl e
           | Inr x_max \<Rightarrow>
               (case horizontal_lines d of
                  Inl e \<Rightarrow> Inl e
                | Inr gs \<Rightarrow> Inr ((x_min, y, x_max, y) # gs))))"

text \<open>
  \<open>update_guides\<close>: the value of \<open>active_guides\<close> when the method returns. The hide
  timer and the showing and hiding of the overlay window do not influence it.
\<close>

definition update_guides :: "QRect \<Rightarrow> QRect list \<Rightarrow> py_error + guide list" where
  "update_guides moving_rect other_rects =
     (case collect_matches moving_rect other_rects of
        (matches_x, matches_y) \<Rightarrow>
          (case vertical_lines matches_x of
             Inl e \<Rightarrow> Inl e
           | Inr vs \<Rightarrow>
               (case horizontal_lines matches_y of
                  Inl e \<Rightarrow> Inl e
                | Inr hs \<Rightarrow> Inr (vs @ hs))))"

text \<open>
  The vocabulary of the statements about the matcher. A coordinate \<open>k\<close> of the moving
  rectangle is aligned with a rectangle when it lies within the tolerance 1 of one of that
  rectangle's three coordinates on the same axis.

  \<open>claimed_keys_x\<close> and \<open>claimed_keys_y\<close> follow the words of the claim as it is written:
  the coordinates of the moving rectangle that are aligned with some rectangle of the list,
  whichever it is.

  \<open>partners_x\<close> and \<open>partners_y\<close> follow the claim as amended: the partners of \<open>k\<close> are
  the rectangles of the list that are aligned with \<open>k\<close> and are not equal to the moving
  rectangle. The guide for \<open>k\<close> spans the moving rectangle and all partners of \<open>k\<close>.
\<close>

definition aligned :: "rat \<Rightarrow> rat list \<Rightarrow> bool" where
  "aligned k pts \<longleftrightarrow> (\<exists>rv \<in> set pts. \<bar>k - rv\<bar> \<le> 1)"

definition claimed_keys_x :: "QRect \<Rightarrow> QRect list \<Rightarrow> rat list" where
  "claimed_keys_x m others =
     filter (\<lambda>k. list_ex (\<lambda>r. aligned k (points_x r)) others) (points_x m)"

definition claimed_keys_y :: "QRect \<Rightarrow> QRect list \<Rightarrow> rat list" where
  "claimed_keys_y m others =
     filter (\<lambda>k. list_ex (\<lambda>r. aligned k (points_y r)) others) (points_y m)"

definition partners_x :: "QRect \<Rightarrow> QRect list \<Rightarrow> rat \<Rightarrow> QRect list" where
  "partners_x m others k = filter (\<lambda>r. r \<noteq> m \<and> aligned k (points_x r)) others"

definition partners_y :: "QRect \<Rightarrow> QRect list \<Rightarrow> rat \<Rightarrow> QRect list" where
  "partners_y m others k = filter (\<lambda>r. r \<noteq> m \<and> aligned k (points_y r)) others"

definition vertical_guide :: "QRect \<Rightarrow> QRect list \<Rightarrow> rat \<Rightarrow> guide" where
  "vertical_guide m others k =
     (k, Min (set (map y1 (m # partners_x m others k))),
      k, Max (set (map y2 (m # partners_x m others k))))"

definition horizontal_guide :: "QRect \<Rightarrow> QRect list \<Rightarrow> rat \<Rightarrow> guide" where
  "horizontal_guide m others k =
     (Min (set (map x1 (m # partners_y m others k))), k,
      Max (set (map x2 (m # partners_y m others k))), k)"

text \<open>
  For the proofs, the updates of one dictionary are read as a list of events, one per
  matching pair of coordinates, each carrying the key and the two spans that are appended;
  \<open>run\<close> applies a list of events to a dictionary.
\<close>

type_synonym event = "rat \<times> span list"

definition run :: "matches \<Rightarrow> event list \<Rightarrow> matches" where
  "run d evs = fold (\<lambda>e d. add_spans d (fst e) (snd e)) evs d"

definition events :: "rat list \<Rightarrow> span \<Rightarrow> rat list \<Rightarrow> span \<Rightarrow> event list" where
  "events m_points m_span r_points r_span =
     concat (map (\<lambda>m_val. concat (map (\<lambda>rv. if \<bar>m_val - rv\<bar> \<le> tol
                                             then [(m_val, [m_span, r_span])] else []) r_points))
                 m_points)"

definition events_x :: "QRect \<Rightarrow> QRect list \<Rightarrow> event list" where
  "events_x m others =
     concat (map (\<lambda>r. if r = m then []
                       else events (points_x m) (span_y m) (points_x r) (span_y r)) others)"

definition events_y :: "QRect \<Rightarrow> QRect list \<Rightarrow> event list" where
  "events_y m others =
     concat (map (\<lambda>r. if r = m then []
                       else events (points_y m) (span_x m) (points_y r) (span_x r)) others)"

text \<open>The spans that a list of events appends under the key \<open>k\<close>.\<close>

definition spans_for :: "rat \<Rightarrow> event list \<Rightarrow> span list" where
  "spans_for k evs = concat (map snd (filter (\<lambda>e. fst e = k) evs))"

section \<open>Project files\<close>

text \<open>
  \<open>FrameModel\<close> and \<open>ProjectModel\<close> (project_models.py) are dataclasses; a dataclass does
  not check the types of the values it is given, so every field holds a \<open>json\<close> value. The
  annotated types are \<open>str\<close> for \<open>id\<close>, \<open>title\<close> and the colours, \<open>int\<close> for the
  geometry, a dictionary for \<open>radii\<close> and \<open>bool\<close> for the three flags.
\<close>

record FrameModel =
  fm_id :: json
  fm_title :: json
  fm_x :: json
  fm_y :: json
  fm_width :: json
  fm_height :: json
  fm_bg_color :: json
  fm_border_color :: json
  fm_radii :: json
  fm_locked :: json
  fm_visible :: json
  fm_fill_enabled :: json

record ProjectModel =
  pm_version :: json
  pm_app_version :: json
  pm_created_at :: json
  pm_frames :: "FrameModel list"

text \<open>\<open>dataclasses.asdict\<close> of a frame model: the fields in declaration order.\<close>

definition asdict :: "FrameModel \<Rightarrow> json" where
  "asdict f =
     JObj [(''id'', fm_id f), (''title'', fm_title f), (''x'', fm_x f), (''y'', fm_y f),
           (''width'', fm_width f), (''height'', fm_height f), (''bg_color'', fm_bg_color f),
           (''border_color'', fm_border_color f), (''radii'', fm_radii f),
           (''locked'', fm_locked f), (''visible'', fm_visible f),
           (''fill_enabled'', fm_fill_enabled f)]"

definition to_dict :: "ProjectModel \<Rightarrow> json" where
  "to_dict p =
     JObj [(''version'', pm_version p), (''app_version'', pm_app_version p),
           (''created_at'', pm_created_at p), (''frames'', JList (map asdict (pm_frames p)))]"

text \<open>
  The parameter names of \<open>FrameModel\<close>, and its constructor called with keyword arguments:
  \<open>id\<close> has no default, a missing \<open>radii\<close> (or \<open>None\<close>) is replaced by the zero radii in
  \<open>__post_init__\<close>.
\<close>

definition frame_keys :: "string list" where
  "frame_keys = [''id'', ''title'', ''x'', ''y'', ''width'', ''height'', ''bg_color'',
                 ''border_color'', ''radii'', ''locked'', ''visible'', ''fill_enabled'']"

definition kwarg :: "(string \<times> json) list \<Rightarrow> string \<Rightarrow> json \<Rightarrow> json" where
  "kwarg kw k dflt = (case map_of kw k of None \<Rightarrow> dflt | Some v \<Rightarrow> v)"

definition FrameModel_init :: "(string \<times> json) list \<Rightarrow> py_error + FrameModel" where
  "FrameModel_init kw =
     (case map_of kw ''id'' of
        None \<Rightarrow> Inl TypeError
      | Some i \<Rightarrow>
          Inr \<lparr>fm_id = i,
               fm_title = kwarg kw ''title'' (JStr ''Frame''),
               fm_x = kwarg kw ''x'' (JInt 100),
               fm_y = kwarg kw ''y'' (JInt 100),
               fm_width = kwarg kw ''width'' (JInt 200),
               fm_height = kwarg kw ''height'' (JInt 200),
               fm_bg_color = kwarg kw ''bg_color'' (JStr ''#2c3e50''),
               fm_border_color = kwarg kw ''border_color'' (JStr ''#ffffff''),
               fm_radii = (if kwarg kw ''radii'' JNull = JNull then zero_radii
                           else kwarg kw ''radii'' JNull),
               fm_locked = kwarg kw ''locked'' (JBool False),
               fm_visible = kwarg kw ''visible'' (JBool True),
               fm_fill_enabled = kwarg kw ''fill_enabled'' (JBool True)\<rparr>)"

text \<open>
  \<open>ProjectValidator.validate\<close> (project_validator.py). A value that is not a dictionary has
  no \<open>keys()\<close>.
\<close>

definition validate :: "json \<Rightarrow> py_error + unit" where
  "validate raw_data =
     (case raw_data of
        JObj members \<Rightarrow>
          (if \<not> set [''version'', ''frames''] \<subseteq> fst ` set members then Inl ValueError
           else (case map_of members ''frames'' of
                   Some (JList items) \<Rightarrow> Inr ()
                 | _ \<Rightarrow> Inl ValueError))
      | _ \<Rightarrow> Inl AttributeError)"

text \<open>
  The files: a store maps a path to the document that \<open>json.load\<close> reads from the file
  at that path; \<open>json.dump\<close> followed by \<open>json.load\<close> gives back the value that was
  written. An object's members have distinct names, as the keys of a dictionary do.
\<close>

type_synonym store = "string \<Rightarrow> json option"

text \<open>
  \<open>ProjectSerializer.save\<close> (project_serializer.py). The two path operations of the
  standard library are parameters: \<open>suffix\<close> gives the file extension of a path and
  \<open>with_suffix\<close> replaces it, or raises when the path has no file name.
  \<open>target_path\<close> is the path the file is written to.
\<close>

definition target_path ::
    "(string \<Rightarrow> string) \<Rightarrow> (string \<Rightarrow> string \<Rightarrow> py_error + string) \<Rightarrow> string \<Rightarrow> py_error + string" where
  "target_path suffix with_suffix path =
     (if suffix path \<noteq> ''.dio'' then with_suffix path ''.dio'' else Inr path)"

definition save ::
    "(string \<Rightarrow> string) \<Rightarrow> (string \<Rightarrow> string \<Rightarrow> py_error + string) \<Rightarrow> store \<Rightarrow> string \<Rightarrow>
     ProjectModel \<Rightarrow> py_error + store" where
  "save suffix with_suffix fs path project =
     (case target_path suffix with_suffix path of
        Inl e \<Rightarrow> Inl e
      | Inr p \<Rightarrow> Inr (fs(p \<mapsto> to_dict project)))"

text \<open>
  \<open>ProjectSerializer.load\<close>. Each entry of \<open>frames\<close> is filtered to the known keys and
  handed to the constructor; an entry that is not a dictionary has no \<open>items()\<close>.
\<close>

fun load_frames :: "json list \<Rightarrow> py_error + FrameModel list" where
  "load_frames [] = Inr []"
| "load_frames (frame_dict # rest) =
     (case frame_dict of
        JObj items \<Rightarrow>
          (case FrameModel_init (filter (\<lambda>kv. fst kv \<in> set frame_keys) items) of
             Inl e \<Rightarrow> Inl e
           | Inr f \<Rightarrow>
               (case load_frames rest of
                  Inl e \<Rightarrow> Inl e
                | Inr fs \<Rightarrow> Inr (f # fs)))
      | _ \<Rightarrow> Inl AttributeError)"

definition load :: "store \<Rightarrow> string \<Rightarrow> py_error + ProjectModel" where
  "load fs path =
     (case fs path of
        None \<Rightarrow> Inl FileNotFoundError
      | Some raw \<Rightarrow>
          (case validate raw of
             Inl e \<Rightarrow> Inl e
           | Inr u \<Rightarrow>
               (case raw of
                  JObj members \<Rightarrow>
                    (case map_of members ''frames'' of
                       Some (JList items) \<Rightarrow>
                         (case load_frames items of
                            Inl e \<Rightarrow> Inl e
                          | Inr frames \<Rightarrow>
                              (case map_of members ''version'' of
                                 None \<Rightarrow> Inl KeyError
                               | Some v \<Rightarrow>
                                   Inr \<lparr>pm_version = v,
                                        pm_app_version = kwarg members ''app_version'' (JStr ''unknown''),
                                        pm_created_at = kwarg members ''created_at'' (JStr []),
                                        pm_frames = frames\<rparr>))
                     | Some other \<Rightarrow> Inl TypeError
                     | None \<Rightarrow> Inl KeyError)
                | _ \<Rightarrow> Inl TypeError)))"

text \<open>A project with two frames, used to instantiate the results below.\<close>

definition example_project :: ProjectModel where
  "example_project =
     \<lparr>pm_version = JStr ''1.0'', pm_app_version = JStr ''2.0.0'',
      pm_created_at = JStr ''2024-01-01T00:00:00'',
      pm_frames =
        [\<lparr>fm_id = JStr ''a'', fm_title = JStr ''Frame 1'', fm_x = JInt 100, fm_y = JInt 100,
          fm_width = JInt 200, fm_height = JInt 200, fm_bg_color = JStr ''#00b4ff'',
          fm_border_color = JStr ''#00b4ff'', fm_radii = zero_radii, fm_locked = JBool False,
          fm_visible = JBool True, fm_fill_enabled = JBool True\<rparr>,
         \<lparr>fm_id = JStr ''b'', fm_title = JStr ''Header'', fm_x = JInt (- 40), fm_y = JInt 300,
          fm_width = JInt 640, fm_height = JInt 48, fm_bg_color = JStr ''#2ecc71'',
          fm_border_color = JStr ''#2ecc71'',
          fm_radii = JObj [(''tl'', JInt 8), (''tr'', JInt 8), (''bl'', JInt 0), (''br'', JInt 0)],
          fm_locked = JBool True, fm_visible = JBool False, fm_fill_enabled = JBool False\<rparr>]\<rparr>"

section \<open>Frame attributes set through the widget\<close>

declare str_nat.simps [simp del]

text \<open>
  \<open>MeasureFrame.set_frame_number\<close>: the title follows the number only while it is still the
  default title of the old number.
\<close>

definition set_frame_number :: "MeasureFrame \<Rightarrow> int \<Rightarrow> MeasureFrame" where
  "set_frame_number f number =
     (let old_default = default_title (frame_number f);
          f = (if title f = old_default then f\<lparr>title := default_title number\<rparr> else f)
      in f\<lparr>frame_number := number\<rparr>)"

definition set_title :: "MeasureFrame \<Rightarrow> json \<Rightarrow> MeasureFrame" where
  "set_title f t = f\<lparr>title := t\<rparr>"

definition set_locked :: "MeasureFrame \<Rightarrow> json \<Rightarrow> MeasureFrame" where
  "set_locked f locked = f\<lparr>is_locked := locked\<rparr>"

definition show_widget :: "MeasureFrame \<Rightarrow> MeasureFrame" where
  "show_widget f = f\<lparr>visible := True\<rparr>"

text \<open>
  \<open>MeasureFrame.on_radius_value_changed\<close>. The dictionary is stored first; then
  \<open>any(v > 0 for v in radii_dict.values())\<close> is evaluated, which stops at the first positive
  value and raises when the argument has no \<open>values()\<close> or when a value it reaches cannot
  be compared with a number (\<open>True\<close> counts as 1, \<open>False\<close> as 0).
\<close>

fun any_positive :: "json list \<Rightarrow> py_error + bool" where
  "any_positive [] = Inr False"
| "any_positive (v # vs) =
     (case v of
        JInt i \<Rightarrow> (if i > 0 then Inr True else any_positive vs)
      | JBool b \<Rightarrow> (if b then Inr True else any_positive vs)
      | _ \<Rightarrow> Inl TypeError)"

definition on_radius_value_changed :: "MeasureFrame \<Rightarrow> json \<Rightarrow> MeasureFrame \<times> py_error option" where
  "on_radius_value_changed f radii_dict =
     (let f = f\<lparr>corner_radii := radii_dict\<rparr>
      in case radii_dict of
           JObj kvs \<Rightarrow>
             (case any_positive (map snd kvs) of
                Inl e \<Rightarrow> (f, Some e)
              | Inr b \<Rightarrow> (f\<lparr>radius_active := b\<rparr>, None))
         | _ \<Rightarrow> (f, Some AttributeError))"

text \<open>
  The toolkit binding converts the arguments of \<open>setGeometry(x, y, w, h)\<close> to C++
  \<open>int\<close> and the argument of \<open>setVisible\<close> to \<open>bool\<close>: a value that is not a number is
  rejected with \<open>TypeError\<close>, an integer outside the 32-bit range with \<open>OverflowError\<close>, and
  the widget is left untouched.
\<close>

definition is_number :: "json \<Rightarrow> bool" where
  "is_number v = (case v of JInt i \<Rightarrow> True | JBool b \<Rightarrow> True | _ \<Rightarrow> False)"

definition int_value :: "json \<Rightarrow> int" where
  "int_value v = (case v of JInt i \<Rightarrow> i | JBool b \<Rightarrow> (if b then 1 else 0) | _ \<Rightarrow> 0)"

definition fits_int32 :: "int \<Rightarrow> bool" where
  "fits_int32 i \<longleftrightarrow> - 2147483648 \<le> i \<and> i \<le> 2147483647"

definition setGeometry_args ::
    "MeasureFrame \<Rightarrow> json \<Rightarrow> json \<Rightarrow> json \<Rightarrow> json \<Rightarrow> py_error + MeasureFrame" where
  "setGeometry_args f a b w h =
     (if \<not> (is_number a \<and> is_number b \<and> is_number w \<and> is_number h) then Inl TypeError
      else if \<not> (fits_int32 (int_value a) \<and> fits_int32 (int_value b) \<and>
                   fits_int32 (int_value w) \<and> fits_int32 (int_value h)) then Inl OverflowError
      else Inr (setGeometry f (int_value a) (int_value b) (int_value w) (int_value h)))"

definition setVisible_arg :: "MeasureFrame \<Rightarrow> json \<Rightarrow> py_error + MeasureFrame" where
  "setVisible_arg f v =
     (if is_number v then Inr (f\<lparr>visible := (int_value v \<noteq> 0)\<rparr>) else Inl TypeError)"

section \<open>The frame manager\<close>

text \<open>
  \<open>FrameManager\<close> (manager.py): the ordered frame list, the palette counter, the selected
  frame (by identity), the project path and the dirty flag. \<open>next_oid\<close> is the supply of
  identities for the frame objects the manager creates. The sidebar, the overlays and the
  dialogs are not part of the state.
\<close>

record Manager =
  frames :: "MeasureFrame list"
  color_idx :: nat
  selected_frame :: "nat option"
  project_path :: "string option"
  dirty :: bool
  advanced_settings :: Settings
  next_oid :: nat

text \<open>\<open>list.remove\<close>: the first entry that is the given object is taken out.\<close>

fun remove_frame :: "nat \<Rightarrow> MeasureFrame list \<Rightarrow> MeasureFrame list" where
  "remove_frame fid [] = []"
| "remove_frame fid (f # fs) = (if oid f = fid then fs else f # remove_frame fid fs)"

text \<open>\<open>_renumber_frames\<close>: \<open>enumerate(self.frames, 1)\<close>.\<close>

fun renumber_from :: "int \<Rightarrow> MeasureFrame list \<Rightarrow> MeasureFrame list" where
  "renumber_from i [] = []"
| "renumber_from i (f # fs) = set_frame_number f i # renumber_from (i + 1) fs"

text \<open>
  \<open>_on_frame_closing\<close>, the slot that runs when the frame with identity \<open>fid\<close> is closed.
\<close>

definition on_frame_closing :: "Manager \<Rightarrow> nat \<Rightarrow> Manager" where
  "on_frame_closing m fid =
     (let fs = (if fid \<in> set (map oid (frames m)) then remove_frame fid (frames m)
                else frames m);
          sel = (if selected_frame m = Some fid
                 then (if fs \<noteq> [] then Some (oid (last fs)) else None)
                 else selected_frame m)
      in m\<lparr>frames := renumber_from 1 fs, selected_frame := sel, dirty := True\<rparr>)"

text \<open>
  \<open>_handle_remote_delete\<close>: closing the widget sends it a close event, whose handler
  emits \<open>frame_closing\<close>.
\<close>

definition handle_remote_delete :: "Manager \<Rightarrow> nat \<Rightarrow> Manager" where
  "handle_remote_delete m fid =
     (if fid \<in> set (map oid (frames m)) then (on_frame_closing m fid)\<lparr>dirty := True\<rparr> else m)"

definition select_frame :: "Manager \<Rightarrow> nat \<Rightarrow> Manager" where
  "select_frame m fid = m\<lparr>selected_frame := Some fid\<rparr>"

text \<open>
  \<open>_handle_duplicate_frame\<close> for the frame object with identity \<open>fid\<close>. The new name is
  the f-string \<open>"{frame.title} copy"\<close>; \<open>fmt\<close> is the text that Python's formatting gives for
  a title that is not a string. An exception leaves the method at the point where it is
  raised; the second component of the result is the exception, if any.
\<close>

definition format_value :: "(json \<Rightarrow> string) \<Rightarrow> json \<Rightarrow> string" where
  "format_value fmt v = (case v of JStr s \<Rightarrow> s | _ \<Rightarrow> fmt v)"

definition handle_duplicate_frame ::
    "(json \<Rightarrow> string) \<Rightarrow> Manager \<Rightarrow> nat \<Rightarrow> Manager \<times> py_error option" where
  "handle_duplicate_frame fmt m fid =
     (case find (\<lambda>f. oid f = fid) (frames m) of
        None \<Rightarrow> (m, None)
      | Some frame \<Rightarrow>
          (let new_name = format_value fmt (title frame) @ '' copy'';
               (bg, border) = FRAME_COLORS ! (color_idx m mod length FRAME_COLORS);
               m = m\<lparr>color_idx := color_idx m + 1\<rparr>;
               new_frame = MeasureFrame_init (next_oid m) bg border
                             (int (length (frames m)) + 1) (advanced_settings m);
               m = m\<lparr>next_oid := next_oid m + 1\<rparr>;
               g = translated (geom frame) 20 20;
               new_frame = setGeometry new_frame (qx g) (qy g) (qwidth g) (qheight g);
               new_frame = set_title new_frame (JStr new_name)
           in case on_radius_value_changed new_frame (corner_radii frame) of
                (new_frame, Some e) \<Rightarrow> (m, Some e)
              | (new_frame, None) \<Rightarrow>
                  (let new_frame = show_widget new_frame;
                       m = m\<lparr>frames := frames m @ [new_frame]\<rparr>;
                       m = select_frame m (oid new_frame)
                   in (m\<lparr>dirty := True\<rparr>, None))))"

text \<open>
  \<open>import_design_from_path\<close>. One frame of the project is turned into a widget by
  \<open>make_overlay\<close>; the widget is shown, which delivers its first resize event and so marks
  the project dirty, and is appended. An exception raised anywhere is caught at the end of
  the method, logged and shown in an error dialog; the result is the state the manager is
  left in and the exception shown, if any.
\<close>

definition make_overlay :: "Manager \<Rightarrow> FrameModel \<Rightarrow> py_error + MeasureFrame" where
  "make_overlay m frame_data =
     (let overlay = MeasureFrame_init (next_oid m) (ColorValue (fm_bg_color frame_data))
                      (ColorValue (fm_border_color frame_data))
                      (int (length (frames m)) + 1) (advanced_settings m)
      in case setGeometry_args overlay (fm_x frame_data) (fm_y frame_data)
                (fm_width frame_data) (fm_height frame_data) of
           Inl e \<Rightarrow> Inl e
         | Inr overlay \<Rightarrow>
             (let overlay = set_title overlay (fm_title frame_data);
                  overlay = set_locked overlay (fm_locked frame_data)
              in case setVisible_arg overlay (fm_visible frame_data) of
                   Inl e \<Rightarrow> Inl e
                 | Inr overlay \<Rightarrow>
                     (case on_radius_value_changed overlay (fm_radii frame_data) of
                        (overlay, Some e) \<Rightarrow> Inl e
                      | (overlay, None) \<Rightarrow> Inr overlay)))"

fun add_frames :: "Manager \<Rightarrow> FrameModel list \<Rightarrow> Manager \<times> py_error option" where
  "add_frames m [] = (m, None)"
| "add_frames m (frame_data # rest) =
     (case make_overlay m frame_data of
        Inl e \<Rightarrow> (m\<lparr>next_oid := next_oid m + 1\<rparr>, Some e)
      | Inr overlay \<Rightarrow>
          add_frames (m\<lparr>next_oid := next_oid m + 1,
                       frames := frames m @ [show_widget overlay],
                       dirty := True\<rparr>) rest)"

definition close_all :: "Manager \<Rightarrow> Manager" where
  "close_all m = fold (\<lambda>fid m. on_frame_closing m fid) (map oid (frames m)) m"

definition import_design_from_path :: "store \<Rightarrow> string \<Rightarrow> Manager \<Rightarrow> Manager \<times> py_error option" where
  "import_design_from_path fs path m =
     (case load fs path of
        Inl e \<Rightarrow> (m, Some e)
      | Inr project \<Rightarrow>
          (let m = close_all m;
               m = m\<lparr>frames := [], project_path := Some path\<rparr>
           in case add_frames m (pm_frames project) of
                (m, Some e) \<Rightarrow> (m, Some e)
              | (m, None) \<Rightarrow>
                  (let m = (if frames m \<noteq> [] then select_frame m (oid (hd (frames m))) else m)
                   in (m\<lparr>dirty := False\<rparr>, None))))"

text \<open>
  A manager holding the single frame that \<open>create_frame\<close> makes first (the first palette
  colour, the second one due next), placed at \<open>(100, 100)\<close> with size \<open>200 \<times> 200\<close> and
  saved under \<open>old.dio\<close>; and a manager holding three frames that still carry their default
  titles.
\<close>

definition first_frame :: MeasureFrame where
  "first_frame =
     (MeasureFrame_init 0 (fst (FRAME_COLORS ! 0)) (snd (FRAME_COLORS ! 0)) 1 default_settings)
       \<lparr>geom := mkRect 100 100 200 200, visible := True\<rparr>"

definition one_frame_manager :: Manager where
  "one_frame_manager =
     \<lparr>frames = [first_frame], color_idx = 1, selected_frame = Some 0,
      project_path = Some ''old.dio'', dirty = False, advanced_settings = default_settings,
      next_oid = 1\<rparr>"

definition numbered_frame :: "nat \<Rightarrow> MeasureFrame" where
  "numbered_frame n =
     (MeasureFrame_init n (fst (FRAME_COLORS ! (n mod 7))) (snd (FRAME_COLORS ! (n mod 7)))
        (int n + 1) default_settings)\<lparr>visible := True\<rparr>"

definition three_frame_manager :: Manager where
  "three_frame_manager =
     \<lparr>frames = [numbered_frame 0, numbered_frame 1, numbered_frame 2],
      color_idx = 3, selected_frame = Some 1, project_path = None, dirty = True,
      advanced_settings = default_settings, next_oid = 3\<rparr>"

text \<open>
  The frames that remain when the frame with identity \<open>fid\<close> is taken out, in their order.
\<close>

definition remaining :: "nat \<Rightarrow> Manager \<Rightarrow> MeasureFrame list" where
  "remaining fid m = filter (\<lambda>f. oid f \<noteq> fid) (frames m)"

section \<open>Spacing overlay: results\<close>

text \<open>
  Claim C4. For the source \<open>A = (0, 0, 100, 100)\<close> and the target
  \<open>B = (200, 0, 100, 100)\<close> the overlay draws one horizontal measurement and no vertical
  one, but the measurement it draws runs from \<open>x = 99\<close> to \<open>x = 200\<close> on the line
  \<open>y = 49\<close> and is labelled 101, where the specification asks for a gap of 100 on the
  line \<open>y = 50\<close>: the overlay reads the last pixel column and row of a rectangle
  (\<open>right()\<close>, \<open>center()\<close>) as if they were its far boundary and its midpoint. For the
  same reason a target that touches the source, \<open>(100, 0, 100, 100)\<close>, is measured as
  one pixel away, although the source's right edge is not left of the target's left edge.
\<close>

theorem spacing_example_off_by_one:
  "spacing_paintEvent (Some (mkRect 0 0 100 100)) (Some (mkRect 200 0 100 100)) =
     [\<lparr>m_line = (99, 49, 200, 49), m_value = 101, m_horizontal = True\<rparr>] \<and>
   spacing_paintEvent (Some (mkRect 0 0 100 100)) (Some (mkRect 100 0 100 100)) =
     [\<lparr>m_line = (99, 49, 100, 49), m_value = 1, m_horizontal = True\<rparr>]"
  by (simp add: spacing_paintEvent_def isNull_def h_measure_def v_measure_def
      mkRect_def left_def right_def top_def bottom_def center_x_def center_y_def trunc_half_def)

section \<open>Geometry engine: results\<close>

lemma bounded_range: "10 \<le> bounded w \<and> bounded w \<le> 4000"
  by (simp add: bounded_def MIN_SIZE_def MAX_SIZE_def)

lemma bounded_id: "10 \<le> w \<Longrightarrow> w \<le> 4000 \<Longrightarrow> bounded w = w"
  by (simp add: bounded_def MIN_SIZE_def MAX_SIZE_def)

lemma setGeometry_size:
  "qwidth (geom (setGeometry f a b w h)) = bounded w"
  "qheight (geom (setGeometry f a b w h)) = bounded h"
  by (simp_all add: setGeometry_def mkRect_def)

lemma perform_drag_sets_geometry:
  "drag_mode f \<noteq> MOVE \<Longrightarrow> \<exists>a b w h. perform_drag f p s = setGeometry f a b w h"
  unfolding perform_drag_def Let_def
  by (simp only: if_False split_def) blast

lemma wheelEvent_sets_geometry:
  "\<exists>a b w h. wheelEvent f delta s = setGeometry f a b w h"
  unfolding wheelEvent_def Let_def by blast

text \<open>
  Claim C2. Whatever the wheel tick, the pointer position and the screen, a wheel resize
  leaves the frame's width and height in \<open>[10, 4000]\<close>, and so does a drag in any mode
  other than \<open>MOVE\<close> (the edge and corner handles): every size the frame is asked to take
  passes through the widget's size limits.
\<close>

theorem resize_within_limits:
  "(10 \<le> qwidth (geom (wheelEvent f delta s)) \<and> qwidth (geom (wheelEvent f delta s)) \<le> 4000 \<and>
    10 \<le> qheight (geom (wheelEvent f delta s)) \<and> qheight (geom (wheelEvent f delta s)) \<le> 4000) \<and>
   (drag_mode f \<noteq> MOVE \<longrightarrow>
    10 \<le> qwidth (geom (perform_drag f p s)) \<and> qwidth (geom (perform_drag f p s)) \<le> 4000 \<and>
    10 \<le> qheight (geom (perform_drag f p s)) \<and> qheight (geom (perform_drag f p s)) \<le> 4000)"
proof -
  obtain a b w h where wheel: "wheelEvent f delta s = setGeometry f a b w h"
    using wheelEvent_sets_geometry by blast
  have first: "10 \<le> qwidth (geom (wheelEvent f delta s)) \<and>
      qwidth (geom (wheelEvent f delta s)) \<le> 4000 \<and>
      10 \<le> qheight (geom (wheelEvent f delta s)) \<and>
      qheight (geom (wheelEvent f delta s)) \<le> 4000"
    by (simp add: wheel setGeometry_size bounded_range)
  have second: "10 \<le> qwidth (geom (perform_drag f p s)) \<and>
      qwidth (geom (perform_drag f p s)) \<le> 4000 \<and>
      10 \<le> qheight (geom (perform_drag f p s)) \<and>
      qheight (geom (perform_drag f p s)) \<le> 4000" if nm: "drag_mode f \<noteq> MOVE"
  proof -
    obtain a' b' w' h' where "perform_drag f p s = setGeometry f a' b' w' h'"
      using perform_drag_sets_geometry [OF nm] by blast
    then show ?thesis by (simp add: setGeometry_size bounded_range)
  qed
  from first second show ?thesis by blast
qed

theorem resize_within_limits_witness:
  "drag_mode ((MeasureFrame_init 0 COLOR_BG COLOR_BORDER 1 default_settings)
       \<lparr>drag_mode := RESIZE_TOP_LEFT, start_geom := mkRect 300 200 400 250\<rparr>) \<noteq> MOVE \<and>
   qwidth (geom (perform_drag ((MeasureFrame_init 0 COLOR_BG COLOR_BORDER 1 default_settings)
       \<lparr>drag_mode := RESIZE_TOP_LEFT, start_geom := mkRect 300 200 400 250\<rparr>)
       (- 1000000, 1000000) (mkRect 0 0 1920 1080))) \<in> {10..4000} \<and>
   qheight (geom (perform_drag ((MeasureFrame_init 0 COLOR_BG COLOR_BORDER 1 default_settings)
       \<lparr>drag_mode := RESIZE_TOP_LEFT, start_geom := mkRect 300 200 400 250\<rparr>)
       (- 1000000, 1000000) (mkRect 0 0 1920 1080))) \<in> {10..4000}"
  using resize_within_limits
    [of "(MeasureFrame_init 0 COLOR_BG COLOR_BORDER 1 default_settings)
       \<lparr>drag_mode := RESIZE_TOP_LEFT, start_geom := mkRect 300 200 400 250\<rparr>"
       0 "mkRect 0 0 1920 1080" "(- 1000000, 1000000)"]
  by (simp add: MeasureFrame_init_def)

lemma clamp_low: "lo \<le> max lo (min hi (v::int))"
  by simp

lemma clamp_high: "lo \<le> hi \<Longrightarrow> max lo (min hi (v::int)) \<le> hi"
  by simp

lemma move_geom: "geom (move f a b) = mkRect a b (qwidth (geom f)) (qheight (geom f))"
  by (simp add: move_def)

lemma inside_clamped:
  assumes "w \<le> qwidth s" and "h \<le> qheight s"
  shows "inside (mkRect (max (left s) (min (right s - w) a)) (max (top s) (min (bottom s - h) b)) w h) s"
proof -
  have "left s \<le> right s - w + 1" "top s \<le> bottom s - h + 1"
    using assms by (simp_all add: left_def right_def top_def bottom_def)
  then show ?thesis
    by (auto simp: inside_def mkRect_def left_def right_def top_def bottom_def)
qed

text \<open>
  Claim C3, as the code has it. A move keeps the frame inside the available rectangle of the
  screen it is clamped against whenever the frame is no wider and no taller than that
  rectangle: this holds for a pointer drag in \<open>MOVE\<close> mode and for a nudge (step 1, or 10
  with Shift) of a frame that is not locked.
\<close>

theorem move_keeps_frame_on_screen:
  assumes "qwidth (geom f) \<le> qwidth s" and "qheight (geom f) \<le> qheight s"
  shows "(drag_mode f = MOVE \<longrightarrow> inside (geom (perform_drag f p s)) s) \<and>
         (\<not> truthy (is_locked f) \<longrightarrow> inside (geom (handle_move_frame f direction shift s)) s)"
proof (intro conjI impI)
  assume "drag_mode f = MOVE"
  then show "inside (geom (perform_drag f p s)) s"
    by (simp add: perform_drag_def Let_def move_geom inside_clamped [OF assms])
next
  assume "\<not> truthy (is_locked f)"
  then show "inside (geom (handle_move_frame f direction shift s)) s"
    by (simp add: handle_move_frame_def Let_def move_geom inside_clamped [OF assms]
        split: prod.splits)
qed

theorem move_keeps_frame_on_screen_witness:
  "qwidth (geom ((MeasureFrame_init 0 COLOR_BG COLOR_BORDER 1 default_settings)
       \<lparr>drag_mode := MOVE, start_geom := mkRect 0 0 400 250\<rparr>)) \<le> qwidth (mkRect 0 0 1920 1080) \<and>
   qheight (geom ((MeasureFrame_init 0 COLOR_BG COLOR_BORDER 1 default_settings)
       \<lparr>drag_mode := MOVE, start_geom := mkRect 0 0 400 250\<rparr>)) \<le> qheight (mkRect 0 0 1920 1080) \<and>
   drag_mode ((MeasureFrame_init 0 COLOR_BG COLOR_BORDER 1 default_settings)
       \<lparr>drag_mode := MOVE, start_geom := mkRect 0 0 400 250\<rparr>) = MOVE \<and>
   \<not> truthy (is_locked ((MeasureFrame_init 0 COLOR_BG COLOR_BORDER 1 default_settings)
       \<lparr>drag_mode := MOVE, start_geom := mkRect 0 0 400 250\<rparr>)) \<and>
   inside (geom (perform_drag ((MeasureFrame_init 0 COLOR_BG COLOR_BORDER 1 default_settings)
       \<lparr>drag_mode := MOVE, start_geom := mkRect 0 0 400 250\<rparr>) (5000, 5000)
       (mkRect 0 0 1920 1080))) (mkRect 0 0 1920 1080) \<and>
   inside (geom (handle_move_frame ((MeasureFrame_init 0 COLOR_BG COLOR_BORDER 1 default_settings)
       \<lparr>drag_mode := MOVE, start_geom := mkRect 0 0 400 250\<rparr>) ''left'' True
       (mkRect 0 0 1920 1080))) (mkRect 0 0 1920 1080)"
  using move_keeps_frame_on_screen
    [of "(MeasureFrame_init 0 COLOR_BG COLOR_BORDER 1 default_settings)
       \<lparr>drag_mode := MOVE, start_geom := mkRect 0 0 400 250\<rparr>"
       "mkRect 0 0 1920 1080" "(5000, 5000)" "''left''" True]
  by (simp add: MeasureFrame_init_def mkRect_def bounded_def MIN_SIZE_def MAX_SIZE_def truthy_def)

text \<open>
  Claim C3 as written fails for a frame wider than the screen: a frame of width 2000 at the
  left edge of a \<open>1920 \<times> 1080\<close> screen, nudged to the right, stays at \<open>x = 0\<close> and its
  right edge, 1999, is beyond the screen's right edge, 1919.
\<close>

theorem move_off_screen_counterexample:
  "\<not> truthy (is_locked ((MeasureFrame_init 0 COLOR_BG COLOR_BORDER 1 default_settings)
       \<lparr>geom := mkRect 0 0 2000 100\<rparr>)) \<and>
   geom (handle_move_frame ((MeasureFrame_init 0 COLOR_BG COLOR_BORDER 1 default_settings)
       \<lparr>geom := mkRect 0 0 2000 100\<rparr>) ''right'' False (mkRect 0 0 1920 1080)) = mkRect 0 0 2000 100 \<and>
   \<not> right (mkRect 0 0 2000 100) \<le> right (mkRect 0 0 1920 1080) \<and>
   \<not> inside (geom (handle_move_frame ((MeasureFrame_init 0 COLOR_BG COLOR_BORDER 1 default_settings)
       \<lparr>geom := mkRect 0 0 2000 100\<rparr>) ''right'' False (mkRect 0 0 1920 1080)))
       (mkRect 0 0 1920 1080)"
  by (simp add: MeasureFrame_init_def handle_move_frame_def move_def inside_def mkRect_def
      left_def right_def top_def bottom_def truthy_def Let_def)

lemma resize_geom:
  "geom (resize f w h) = mkRect (qx (geom f)) (qy (geom f)) (bounded w) (bounded h)"
  by (simp add: resize_def)

lemma bounded_min_max:
  "bounded (min (max MIN_SIZE v) m) = max 10 (min v (min 4000 m))"
  by (simp add: bounded_def MIN_SIZE_def MAX_SIZE_def)

lemma dimension_input_width_geom:
  "geom (on_dimension_input f ''width'' v s) =
     mkRect (qx (geom f)) (qy (geom f))
       (max 10 (min v (min 4000 (right s - qx (geom f))))) (bounded (qheight (geom f)))"
  by (simp add: on_dimension_input_def Let_def resize_geom bounded_min_max)

lemma dimension_input_height_geom:
  "axis \<noteq> ''width'' \<Longrightarrow>
   geom (on_dimension_input f axis v s) =
     mkRect (qx (geom f)) (qy (geom f)) (bounded (qwidth (geom f)))
       (max 10 (min v (min 4000 (bottom s - qy (geom f)))))"
  by (simp add: on_dimension_input_def Let_def resize_geom bounded_min_max)

lemma clamped_entry:
  fixes v :: int
  shows "10 \<le> max 10 (min v (min 4000 (e - 1 - a)))"
    and "max 10 (min v (min 4000 (e - 1 - a))) \<le> 4000"
    and "max 10 (min v (min 4000 (e - 1 - a))) \<le> max 10 (e - a)"
    and "a + v < e \<Longrightarrow> max 10 (min v (min 4000 (e - 1 - a))) = max 10 (min v 4000)"
  by simp_all

text \<open>
  Claim C9, as the code has it. For a frame whose size is within the widget's limits, a
  typed width changes the width only: \<open>x\<close>, \<open>y\<close> and the height stay as they were. The
  new width lies in \<open>[10, 4000]\<close> and is at most \<open>max 10 (screenBound - frame.x)\<close>, and
  whenever \<open>frame.x\<close> plus the entered value lies before the screen bound it is the entered
  value clamped to \<open>[10, 4000]\<close>; the lower bound 10 wins over the screen bound. A typed
  height does the same on the other axis. The screen bounds are the far boundaries
  \<open>x + width\<close> and \<open>y + height\<close> of the screen's available rectangle.
\<close>

theorem dimension_input_sets_one_axis:
  assumes "10 \<le> qwidth (geom f)" and "qwidth (geom f) \<le> 4000"
    and "10 \<le> qheight (geom f)" and "qheight (geom f) \<le> 4000"
  shows "(qx (geom (on_dimension_input f ''width'' v s)) = qx (geom f) \<and>
          qy (geom (on_dimension_input f ''width'' v s)) = qy (geom f) \<and>
          qheight (geom (on_dimension_input f ''width'' v s)) = qheight (geom f) \<and>
          10 \<le> qwidth (geom (on_dimension_input f ''width'' v s)) \<and>
          qwidth (geom (on_dimension_input f ''width'' v s)) \<le> 4000 \<and>
          qwidth (geom (on_dimension_input f ''width'' v s)) \<le>
            max 10 (far_right s - qx (geom f)) \<and>
          (qx (geom f) + v < far_right s \<longrightarrow>
           qwidth (geom (on_dimension_input f ''width'' v s)) = max 10 (min v 4000))) \<and>
         (axis \<noteq> ''width'' \<longrightarrow>
          qx (geom (on_dimension_input f axis v s)) = qx (geom f) \<and>
          qy (geom (on_dimension_input f axis v s)) = qy (geom f) \<and>
          qwidth (geom (on_dimension_input f axis v s)) = qwidth (geom f) \<and>
          10 \<le> qheight (geom (on_dimension_input f axis v s)) \<and>
          qheight (geom (on_dimension_input f axis v s)) \<le> 4000 \<and>
          qheight (geom (on_dimension_input f axis v s)) \<le>
            max 10 (far_bottom s - qy (geom f)) \<and>
          (qy (geom f) + v < far_bottom s \<longrightarrow>
           qheight (geom (on_dimension_input f axis v s)) = max 10 (min v 4000)))"
proof -
  have r: "right s = far_right s - 1" and b: "bottom s = far_bottom s - 1"
    by (simp_all add: right_def bottom_def far_right_def far_bottom_def)
  have w: "geom (on_dimension_input f ''width'' v s) =
      mkRect (qx (geom f)) (qy (geom f))
        (max 10 (min v (min 4000 (far_right s - 1 - qx (geom f))))) (qheight (geom f))"
    using assms by (simp add: dimension_input_width_geom r bounded_id)
  have h: "geom (on_dimension_input f axis v s) =
      mkRect (qx (geom f)) (qy (geom f)) (qwidth (geom f))
        (max 10 (min v (min 4000 (far_bottom s - 1 - qy (geom f)))))"
    if "axis \<noteq> ''width''"
    using assms that by (simp add: dimension_input_height_geom b bounded_id)
  have first: "qx (geom (on_dimension_input f ''width'' v s)) = qx (geom f) \<and>
          qy (geom (on_dimension_input f ''width'' v s)) = qy (geom f) \<and>
          qheight (geom (on_dimension_input f ''width'' v s)) = qheight (geom f) \<and>
          10 \<le> qwidth (geom (on_dimension_input f ''width'' v s)) \<and>
          qwidth (geom (on_dimension_input f ''width'' v s)) \<le> 4000 \<and>
          qwidth (geom (on_dimension_input f ''width'' v s)) \<le>
            max 10 (far_right s - qx (geom f)) \<and>
          (qx (geom f) + v < far_right s \<longrightarrow>
           qwidth (geom (on_dimension_input f ''width'' v s)) = max 10 (min v 4000))"
    unfolding w mkRect_def using clamped_entry [where v = v and e = "far_right s" and a = "qx (geom f)"] by simp
  have second: "qx (geom (on_dimension_input f axis v s)) = qx (geom f) \<and>
          qy (geom (on_dimension_input f axis v s)) = qy (geom f) \<and>
          qwidth (geom (on_dimension_input f axis v s)) = qwidth (geom f) \<and>
          10 \<le> qheight (geom (on_dimension_input f axis v s)) \<and>
          qheight (geom (on_dimension_input f axis v s)) \<le> 4000 \<and>
          qheight (geom (on_dimension_input f axis v s)) \<le>
            max 10 (far_bottom s - qy (geom f)) \<and>
          (qy (geom f) + v < far_bottom s \<longrightarrow>
           qheight (geom (on_dimension_input f axis v s)) = max 10 (min v 4000))"
    if ax: "axis \<noteq> ''width''"
    unfolding h [OF ax] mkRect_def
    using clamped_entry [where v = v and e = "far_bottom s" and a = "qy (geom f)"] by simp
  from first second show ?thesis by blast
qed

theorem dimension_input_sets_one_axis_witness:
  "10 \<le> qwidth (mkRect 100 100 400 250) \<and> qwidth (mkRect 100 100 400 250) \<le> 4000 \<and>
   10 \<le> qheight (mkRect 100 100 400 250) \<and> qheight (mkRect 100 100 400 250) \<le> 4000 \<and>
   ''height'' \<noteq> ''width'' \<and>
   100 + 3 < far_right (mkRect 0 0 1920 1080) \<and>
   100 + 300 < far_bottom (mkRect 0 0 1920 1080) \<and>
   geom (on_dimension_input ((MeasureFrame_init 0 COLOR_BG COLOR_BORDER 1 default_settings)
       \<lparr>geom := mkRect 100 100 400 250\<rparr>) ''width'' 3 (mkRect 0 0 1920 1080)) =
     mkRect 100 100 10 250 \<and>
   geom (on_dimension_input ((MeasureFrame_init 0 COLOR_BG COLOR_BORDER 1 default_settings)
       \<lparr>geom := mkRect 100 100 400 250\<rparr>) ''height'' 300 (mkRect 0 0 1920 1080)) =
     mkRect 100 100 400 300"
  using dimension_input_sets_one_axis
    [of "(MeasureFrame_init 0 COLOR_BG COLOR_BORDER 1 default_settings)
       \<lparr>geom := mkRect 100 100 400 250\<rparr>" 3 "mkRect 0 0 1920 1080" "''height''"]
    dimension_input_sets_one_axis
    [of "(MeasureFrame_init 0 COLOR_BG COLOR_BORDER 1 default_settings)
       \<lparr>geom := mkRect 100 100 400 250\<rparr>" 300 "mkRect 0 0 1920 1080" "''height''"]
  by (simp add: MeasureFrame_init_def mkRect_def far_right_def far_bottom_def
      on_dimension_input_def resize_def bounded_def MIN_SIZE_def MAX_SIZE_def right_def
      bottom_def Let_def)

text \<open>
  Claim C9 as written fails where the screen leaves more than 4000 pixels: on a
  \<open>5120 \<times> 2880\<close> screen a frame at \<open>x = 0\<close> that is given the width 5000 becomes 4000
  wide, while the entered value clamped to \<open>[10, screenBound - frame.x]\<close> is 5000, with
  the screen bound \<open>x + width = 5120\<close>.
\<close>

theorem dimension_input_counterexample:
  "qwidth (geom (on_dimension_input ((MeasureFrame_init 0 COLOR_BG COLOR_BORDER 1 default_settings)
       \<lparr>geom := mkRect 0 0 400 250\<rparr>) ''width'' 5000 (mkRect 0 0 5120 2880))) = 4000 \<and>
   max 10 (min 5000 (far_right (mkRect 0 0 5120 2880) -
       qx (geom ((MeasureFrame_init 0 COLOR_BG COLOR_BORDER 1 default_settings)
       \<lparr>geom := mkRect 0 0 400 250\<rparr>)))) = (5000 :: int)"
  by (simp add: MeasureFrame_init_def on_dimension_input_def resize_def mkRect_def right_def
      far_right_def bounded_def MIN_SIZE_def MAX_SIZE_def Let_def)

section \<open>Smart guides: results\<close>

lemma run_Nil [simp]: "run d [] = d"
  by (simp add: run_def)

lemma run_Cons [simp]: "run d (e # evs) = run (add_spans d (fst e) (snd e)) evs"
  by (simp add: run_def)

lemma run_append: "run d (a @ b) = run (run d a) b"
  by (simp add: run_def)

lemma check_alignments_run:
  "check_alignments mp ms rp rs d = run d (events mp ms rp rs)"
proof -
  have inner: "fold (\<lambda>rv d. if \<bar>k - rv\<bar> \<le> tol then add_spans d k [ms, rs] else d) rp d =
      run d (concat (map (\<lambda>rv. if \<bar>k - rv\<bar> \<le> tol then [(k, [ms, rs])] else []) rp))"
    for k d
    by (induction rp arbitrary: d) (simp_all add: run_append)
  show ?thesis
    unfolding check_alignments_def events_def
    by (induction mp arbitrary: d) (simp_all add: run_append inner)
qed

lemma collect_matches_run_gen:
  "fold (\<lambda>r (matches_x, matches_y).
             if r = m then (matches_x, matches_y)
             else (check_alignments (points_x m) (span_y m) (points_x r) (span_y r) matches_x,
                   check_alignments (points_y m) (span_x m) (points_y r) (span_x r) matches_y))
       others (dx, dy) = (run dx (events_x m others), run dy (events_y m others))"
  by (induction others arbitrary: dx dy)
     (simp_all add: events_x_def events_y_def run_append check_alignments_run)

lemma collect_matches_run:
  "collect_matches m others = (run [] (events_x m others), run [] (events_y m others))"
  by (simp add: collect_matches_def collect_matches_run_gen)

lemma keys_add_spans:
  "map fst (add_spans d k vs) = (if k \<in> fst ` set d then map fst d else map fst d @ [k])"
proof (induction d)
  case Nil
  then show ?case by simp
next
  case (Cons a d)
  then show ?case by (cases a) (fastforce split: if_splits)
qed

lemma distinct_add_spans: "distinct (map fst d) \<Longrightarrow> distinct (map fst (add_spans d k vs))"
  by (simp add: keys_add_spans)

lemma map_of_add_spans:
  "map_of (add_spans d k vs) =
     (map_of d)(k \<mapsto> (case map_of d k of None \<Rightarrow> vs | Some ss \<Rightarrow> ss @ vs))"
  by (induction d) (auto simp: fun_eq_iff)

lemma distinct_run: "distinct (map fst d) \<Longrightarrow> distinct (map fst (run d evs))"
  by (induction evs arbitrary: d) (simp_all add: distinct_add_spans)

lemma keys_run: "fst ` set (run d evs) = fst ` set d \<union> fst ` set evs"
proof (induction evs arbitrary: d)
  case Nil
  then show ?case by simp
next
  case (Cons e evs)
  have "fst ` set (add_spans d (fst e) (snd e)) = insert (fst e) (fst ` set d)"
    using keys_add_spans [of d "fst e" "snd e"]
    by (metis (no_types, lifting) Un_insert_right append_Nil2 insert_absorb list.simps(15) set_append set_map)
  then show ?case using Cons by auto
qed

lemma map_of_run:
  "map_of (run d evs) k =
     (if k \<in> fst ` set d \<union> fst ` set evs
      then Some ((case map_of d k of None \<Rightarrow> [] | Some ss \<Rightarrow> ss) @ spans_for k evs)
      else None)"
proof (induction evs arbitrary: d)
  case Nil
  then show ?case
    by (auto simp: spans_for_def map_of_eq_None_iff split: option.splits)
next
  case (Cons e evs)
  have keys: "fst ` set (add_spans d (fst e) (snd e)) = insert (fst e) (fst ` set d)"
    using keys_run [of d "[e]"] by simp
  show ?case
    unfolding run_Cons Cons.IH keys
    by (auto simp: map_of_add_spans spans_for_def split: option.splits)
qed


lemma set_events:
  "set (events mp ms rp rs) = {(k, [ms, rs]) | k. k \<in> set mp \<and> aligned k rp}"
  by (auto simp: events_def aligned_def tol_def split: if_splits)

lemma set_events_x:
  "set (events_x m others) =
     {(k, [span_y m, span_y r]) | k r. r \<in> set others \<and> r \<noteq> m \<and> k \<in> set (points_x m) \<and>
        aligned k (points_x r)}"
  by (auto simp: events_x_def set_events split: if_splits)

lemma set_events_y:
  "set (events_y m others) =
     {(k, [span_x m, span_x r]) | k r. r \<in> set others \<and> r \<noteq> m \<and> k \<in> set (points_y m) \<and>
        aligned k (points_y r)}"
  by (auto simp: events_y_def set_events split: if_splits)

lemma keys_events_x:
  "fst ` set (events_x m others) = {k \<in> set (points_x m). partners_x m others k \<noteq> []}"
  by (force simp: set_events_x partners_x_def filter_empty_conv)

lemma keys_events_y:
  "fst ` set (events_y m others) = {k \<in> set (points_y m). partners_y m others k \<noteq> []}"
  by (force simp: set_events_y partners_y_def filter_empty_conv)

lemma set_spans_for: "set (spans_for k evs) = (\<Union>e \<in> {e \<in> set evs. fst e = k}. set (snd e))"
  by (auto simp: spans_for_def)

lemma spans_for_events_x:
  assumes "k \<in> fst ` set (events_x m others)"
  shows "set (spans_for k (events_x m others)) = set (map span_y (m # partners_x m others k))"
proof -
  from assms obtain r where r: "r \<in> set others" "r \<noteq> m" "k \<in> set (points_x m)"
      "aligned k (points_x r)"
    by (auto simp: set_events_x)
  have "{e \<in> set (events_x m others). fst e = k} =
      (\<lambda>r. (k, [span_y m, span_y r])) ` set (partners_x m others k)"
    using r(3) by (auto simp: set_events_x partners_x_def)
  moreover have "r \<in> set (partners_x m others k)"
    using r by (simp add: partners_x_def)
  ultimately show ?thesis
    unfolding set_spans_for by auto
qed

lemma spans_for_events_y:
  assumes "k \<in> fst ` set (events_y m others)"
  shows "set (spans_for k (events_y m others)) = set (map span_x (m # partners_y m others k))"
proof -
  from assms obtain r where r: "r \<in> set others" "r \<noteq> m" "k \<in> set (points_y m)"
      "aligned k (points_y r)"
    by (auto simp: set_events_y)
  have "{e \<in> set (events_y m others). fst e = k} =
      (\<lambda>r. (k, [span_x m, span_x r])) ` set (partners_y m others k)"
    using r(3) by (auto simp: set_events_y partners_y_def)
  moreover have "r \<in> set (partners_y m others k)"
    using r by (simp add: partners_y_def)
  ultimately show ?thesis
    unfolding set_spans_for by auto
qed

lemma py_min_Min: "vs \<noteq> [] \<Longrightarrow> py_min vs = Inr (Min (set vs))"
proof (cases vs)
  case Nil
  then show "vs \<noteq> [] \<Longrightarrow> ?thesis" by simp
next
  case (Cons a list)
  show ?thesis unfolding Cons py_min.simps Min.set_eq_fold ..
qed

lemma py_max_Max: "vs \<noteq> [] \<Longrightarrow> py_max vs = Inr (Max (set vs))"
proof (cases vs)
  case Nil
  then show "vs \<noteq> [] \<Longrightarrow> ?thesis" by simp
next
  case (Cons a list)
  show ?thesis unfolding Cons py_max.simps Max.set_eq_fold ..
qed

lemma vertical_lines_total:
  "\<forall>e \<in> set d. snd e \<noteq> [] \<Longrightarrow>
   vertical_lines d =
     Inr (map (\<lambda>e. (fst e, Min (set (map fst (snd e))), fst e, Max (set (map snd (snd e))))) d)"
  by (induction d rule: vertical_lines.induct) (simp_all add: py_min_Min py_max_Max)

lemma horizontal_lines_total:
  "\<forall>e \<in> set d. snd e \<noteq> [] \<Longrightarrow>
   horizontal_lines d =
     Inr (map (\<lambda>e. (Min (set (map fst (snd e))), fst e, Max (set (map snd (snd e))), fst e)) d)"
  by (induction d rule: horizontal_lines.induct) (simp_all add: py_min_Min py_max_Max)

lemma entry_of_run:
  assumes "e \<in> set (run [] evs)"
  shows "fst e \<in> fst ` set evs \<and> snd e = spans_for (fst e) evs"
proof -
  have d: "distinct (map fst (run [] evs))"
    by (rule distinct_run) simp
  obtain k ss where e: "e = (k, ss)" by (cases e)
  with assms d have "map_of (run [] evs) k = Some ss" by simp
  then show ?thesis
    unfolding e by (simp add: map_of_run split: if_splits)
qed

lemma vertical_entry:
  assumes "e \<in> set (run [] (events_x m others))"
  shows "snd e \<noteq> []"
    and "(fst e, Min (set (map fst (snd e))), fst e, Max (set (map snd (snd e)))) =
         vertical_guide m others (fst e)"
proof -
  from entry_of_run [OF assms]
  have k: "fst e \<in> fst ` set (events_x m others)"
    and s: "snd e = spans_for (fst e) (events_x m others)" by simp_all
  have set_s: "set (snd e) = set (map span_y (m # partners_x m others (fst e)))"
    unfolding s by (rule spans_for_events_x [OF k])
  then show "snd e \<noteq> []" by auto
  have "set (map fst (snd e)) = set (map y1 (m # partners_x m others (fst e)))"
    "set (map snd (snd e)) = set (map y2 (m # partners_x m others (fst e)))"
    unfolding set_map set_s by (simp_all add: image_image span_y_def)
  then show "(fst e, Min (set (map fst (snd e))), fst e, Max (set (map snd (snd e)))) =
         vertical_guide m others (fst e)"
    by (simp add: vertical_guide_def)
qed

lemma horizontal_entry:
  assumes "e \<in> set (run [] (events_y m others))"
  shows "snd e \<noteq> []"
    and "(Min (set (map fst (snd e))), fst e, Max (set (map snd (snd e))), fst e) =
         horizontal_guide m others (fst e)"
proof -
  from entry_of_run [OF assms]
  have k: "fst e \<in> fst ` set (events_y m others)"
    and s: "snd e = spans_for (fst e) (events_y m others)" by simp_all
  have set_s: "set (snd e) = set (map span_x (m # partners_y m others (fst e)))"
    unfolding s by (rule spans_for_events_y [OF k])
  then show "snd e \<noteq> []" by auto
  have "set (map fst (snd e)) = set (map x1 (m # partners_y m others (fst e)))"
    "set (map snd (snd e)) = set (map x2 (m # partners_y m others (fst e)))"
    unfolding set_map set_s by (simp_all add: image_image span_x_def)
  then show "(Min (set (map fst (snd e))), fst e, Max (set (map snd (snd e))), fst e) =
         horizontal_guide m others (fst e)"
    by (simp add: horizontal_guide_def)
qed

lemma vertical_lines_run:
  "vertical_lines (run [] (events_x m others)) =
     Inr (map (vertical_guide m others) (map fst (run [] (events_x m others))))"
  using vertical_entry [of _ m others]
  by (simp add: vertical_lines_total)

lemma horizontal_lines_run:
  "horizontal_lines (run [] (events_y m others)) =
     Inr (map (horizontal_guide m others) (map fst (run [] (events_y m others))))"
  using horizontal_entry [of _ m others]
  by (simp add: horizontal_lines_total)

text \<open>
  Claim C1, as the code has it. For every moving rectangle and every list of other
  rectangles the matcher returns, without raising, first one vertical guide for each
  distinct X-coordinate of the moving rectangle (left, centre, right) that lies within the
  tolerance 1 of an X-coordinate of some rectangle of the list that is not equal to the
  moving rectangle, then one horizontal guide for each such Y-coordinate. The guide for a
  coordinate sits at that coordinate and spans from the minimum of the lower bounds to the
  maximum of the upper bounds of the moving rectangle and of every rectangle, not equal to
  the moving one, that matches at that coordinate.
\<close>

theorem update_guides_one_per_key:
  "\<exists>kxs kys.
     distinct kxs \<and> set kxs = {k \<in> set (points_x m). partners_x m others k \<noteq> []} \<and>
     distinct kys \<and> set kys = {k \<in> set (points_y m). partners_y m others k \<noteq> []} \<and>
     update_guides m others =
       Inr (map (vertical_guide m others) kxs @ map (horizontal_guide m others) kys)"
proof (intro exI conjI)
  let ?dx = "run [] (events_x m others)" and ?dy = "run [] (events_y m others)"
  show "distinct (map fst ?dx)" by (rule distinct_run) simp
  show "distinct (map fst ?dy)" by (rule distinct_run) simp
  show "set (map fst ?dx) = {k \<in> set (points_x m). partners_x m others k \<noteq> []}"
    by (simp add: keys_run keys_events_x)
  show "set (map fst ?dy) = {k \<in> set (points_y m). partners_y m others k \<noteq> []}"
    by (simp add: keys_run keys_events_y)
  show "update_guides m others =
      Inr (map (vertical_guide m others) (map fst ?dx) @
           map (horizontal_guide m others) (map fst ?dy))"
    by (simp add: update_guides_def collect_matches_run vertical_lines_run horizontal_lines_run)
qed


lemmas guide_eval_defs = update_guides_def collect_matches_def check_alignments_def
  points_x_def points_y_def span_x_def span_y_def x1_def x2_def xc_def y1_def y2_def yc_def
  tol_def mkRect_def

lemma events_x_skip: "events_x m (xs @ m # ys) = events_x m (xs @ ys)"
  by (simp add: events_x_def)

lemma events_y_skip: "events_y m (xs @ m # ys) = events_y m (xs @ ys)"
  by (simp add: events_y_def)

text \<open>
  Claim C10. An entry of the list that equals the moving rectangle is skipped, wherever it
  stands; when it is the only entry no guide is produced, although each of the six
  coordinates of the moving rectangle is aligned with that entry's coordinates.
\<close>

theorem equal_rect_skipped:
  "update_guides m (xs @ m # ys) = update_guides m (xs @ ys) \<and>
   update_guides m [m] = Inr [] \<and>
   aligned (x1 m) (points_x m) \<and> aligned (xc m) (points_x m) \<and> aligned (x2 m) (points_x m) \<and>
   aligned (y1 m) (points_y m) \<and> aligned (yc m) (points_y m) \<and> aligned (y2 m) (points_y m)"
proof -
  have "update_guides m (xs @ m # ys) = update_guides m (xs @ ys)"
    by (simp add: update_guides_def collect_matches_run events_x_skip events_y_skip)
  moreover have "update_guides m [m] = Inr []"
    by (simp add: update_guides_def collect_matches_def)
  moreover have "aligned (x1 m) (points_x m)" "aligned (xc m) (points_x m)"
    "aligned (x2 m) (points_x m)" "aligned (y1 m) (points_y m)" "aligned (yc m) (points_y m)"
    "aligned (y2 m) (points_y m)"
    by (simp_all add: aligned_def points_x_def points_y_def)
  ultimately show ?thesis by blast
qed

text \<open>
  Two instances: three frames that share their left edge \<open>x = 0\<close> and nothing else give the
  single guide from \<open>y = 0\<close> to \<open>y = 650\<close>; a frame whose right edge meets the left edge
  of another at \<open>x = 100\<close> gives the single guide spanning both frames' vertical extents.
\<close>

theorem update_guides_one_per_key_witness:
  "(\<exists>kxs kys.
     distinct kxs \<and>
     set kxs = {k \<in> set (points_x (mkRect 0 0 100 100)).
       partners_x (mkRect 0 0 100 100) [mkRect 0 200 150 100, mkRect 0 500 300 150] k \<noteq> []} \<and>
     distinct kys \<and>
     set kys = {k \<in> set (points_y (mkRect 0 0 100 100)).
       partners_y (mkRect 0 0 100 100) [mkRect 0 200 150 100, mkRect 0 500 300 150] k \<noteq> []} \<and>
     update_guides (mkRect 0 0 100 100) [mkRect 0 200 150 100, mkRect 0 500 300 150] =
       Inr (map (vertical_guide (mkRect 0 0 100 100)
                   [mkRect 0 200 150 100, mkRect 0 500 300 150]) kxs @
            map (horizontal_guide (mkRect 0 0 100 100)
                   [mkRect 0 200 150 100, mkRect 0 500 300 150]) kys)) \<and>
   update_guides (mkRect 0 0 100 100) [mkRect 0 200 150 100, mkRect 0 500 300 150] =
     Inr [(0, 0, 0, 650)] \<and>
   update_guides (mkRect 0 0 100 100) [mkRect 100 30 100 100] = Inr [(100, 0, 100, 130)]"
proof -
  note inst = update_guides_one_per_key
    [of "mkRect 0 0 100 100" "[mkRect 0 200 150 100, mkRect 0 500 300 150]"]
  have "update_guides (mkRect 0 0 100 100) [mkRect 0 200 150 100, mkRect 0 500 300 150] =
      Inr [(0, 0, 0, 650)]"
    by (simp add: guide_eval_defs)
  moreover have "update_guides (mkRect 0 0 100 100) [mkRect 100 30 100 100] =
      Inr [(100, 0, 100, 130)]"
    by (simp add: guide_eval_defs)
  ultimately show ?thesis using inst by blast
qed

theorem equal_rect_skipped_witness:
  "update_guides (mkRect 0 0 100 100) [mkRect 0 0 100 100] = Inr [] \<and>
   update_guides (mkRect 0 0 100 100) [mkRect 0 200 150 100, mkRect 0 0 100 100] =
     update_guides (mkRect 0 0 100 100) [mkRect 0 200 150 100] \<and>
   aligned (x1 (mkRect 0 0 100 100)) (points_x (mkRect 0 0 100 100))"
  using equal_rect_skipped [of "mkRect 0 0 100 100" "[mkRect 0 200 150 100]" "[]"]
  by simp

text \<open>
  The amendment changes the claim only for lists that hold a rectangle equal to the moving
  one: for every other list the keys of the claim as written are the keys with a partner.
\<close>

lemma claimed_keys_without_equal_rect:
  assumes "m \<notin> set others"
  shows "set (claimed_keys_x m others) = {k \<in> set (points_x m). partners_x m others k \<noteq> []}"
    and "set (claimed_keys_y m others) = {k \<in> set (points_y m). partners_y m others k \<noteq> []}"
  using assms
  by (auto simp: claimed_keys_x_def claimed_keys_y_def partners_x_def partners_y_def
      list_ex_iff filter_empty_conv)

text \<open>
  Claim C1 as written fails when the list holds a rectangle equal to the moving one (a
  second frame with the same geometry): for the moving rectangle \<open>(0, 0, 100, 100)\<close> and
  the list holding just that rectangle, all three X-coordinates and all three Y-coordinates
  lie within the tolerance of a coordinate of a rectangle of the list, so the claim asks
  for six guides, and the matcher returns none.
\<close>

theorem update_guides_equal_rect_counterexample:
  "claimed_keys_x (mkRect 0 0 100 100) [mkRect 0 0 100 100] = [0, 50, 100] \<and>
   claimed_keys_y (mkRect 0 0 100 100) [mkRect 0 0 100 100] = [0, 50, 100] \<and>
   update_guides (mkRect 0 0 100 100) [mkRect 0 0 100 100] = Inr []"
  by (simp add: claimed_keys_x_def claimed_keys_y_def aligned_def guide_eval_defs)

section \<open>Project files: results\<close>

lemma FrameModel_init_asdict:
  assumes "fm_radii f \<noteq> JNull" and "asdict f = JObj items"
  shows "FrameModel_init (filter (\<lambda>kv. fst kv \<in> set frame_keys) items) = Inr f"
proof -
  have items: "items = [(''id'', fm_id f), (''title'', fm_title f), (''x'', fm_x f), (''y'', fm_y f),
           (''width'', fm_width f), (''height'', fm_height f), (''bg_color'', fm_bg_color f),
           (''border_color'', fm_border_color f), (''radii'', fm_radii f),
           (''locked'', fm_locked f), (''visible'', fm_visible f),
           (''fill_enabled'', fm_fill_enabled f)]"
    using assms(2) by (simp add: asdict_def)
  have keep: "filter (\<lambda>kv. fst kv \<in> set frame_keys) items = items"
    unfolding items by (simp add: frame_keys_def)
  show ?thesis
    unfolding keep using assms(1)
    by (simp add: items FrameModel_init_def kwarg_def)
qed

lemma load_frames_asdict:
  "\<forall>f \<in> set fs. fm_radii f \<noteq> JNull \<Longrightarrow> load_frames (map asdict fs) = Inr fs"
proof (induction fs)
  case Nil
  then show ?case by simp
next
  case (Cons f fs)
  obtain items where items: "asdict f = JObj items" by (simp add: asdict_def)
  have "FrameModel_init (filter (\<lambda>kv. fst kv \<in> set frame_keys) items) = Inr f"
    using Cons.prems items by (simp add: FrameModel_init_asdict)
  then show ?case using Cons items by simp
qed

lemma load_to_dict:
  assumes "\<forall>f \<in> set (pm_frames project). fm_radii f \<noteq> JNull"
  shows "load (fs(p \<mapsto> to_dict project)) p = Inr project"
  using load_frames_asdict [OF assms]
  by (simp add: load_def to_dict_def validate_def kwarg_def)

text \<open>
  Claim C5. Saving a project and loading the file that was written gives a project whose
  frame list has the same length and, position by position, the same \<open>x\<close>, \<open>y\<close>,
  \<open>width\<close>, \<open>height\<close>, \<open>bg_color\<close>, \<open>border_color\<close>, \<open>radii\<close>, \<open>locked\<close>,
  \<open>visible\<close> and \<open>fill_enabled\<close>. The first premise says that the path operations
  produce a path to write to; the second is the invariant that the constructor of
  \<open>FrameModel\<close> establishes (\<open>radii\<close> is never \<open>None\<close>).
\<close>

theorem save_load_round_trip:
  assumes "target_path suffix with_suffix path = Inr p"
    and "\<forall>f \<in> set (pm_frames project). fm_radii f \<noteq> JNull"
  shows "\<exists>fs' loaded.
      save suffix with_suffix fs path project = Inr fs' \<and> load fs' p = Inr loaded \<and>
      length (pm_frames loaded) = length (pm_frames project) \<and>
      (\<forall>i < length (pm_frames project).
          fm_x (pm_frames loaded ! i) = fm_x (pm_frames project ! i) \<and>
          fm_y (pm_frames loaded ! i) = fm_y (pm_frames project ! i) \<and>
          fm_width (pm_frames loaded ! i) = fm_width (pm_frames project ! i) \<and>
          fm_height (pm_frames loaded ! i) = fm_height (pm_frames project ! i) \<and>
          fm_bg_color (pm_frames loaded ! i) = fm_bg_color (pm_frames project ! i) \<and>
          fm_border_color (pm_frames loaded ! i) = fm_border_color (pm_frames project ! i) \<and>
          fm_radii (pm_frames loaded ! i) = fm_radii (pm_frames project ! i) \<and>
          fm_locked (pm_frames loaded ! i) = fm_locked (pm_frames project ! i) \<and>
          fm_visible (pm_frames loaded ! i) = fm_visible (pm_frames project ! i) \<and>
          fm_fill_enabled (pm_frames loaded ! i) = fm_fill_enabled (pm_frames project ! i))"
proof -
  have "save suffix with_suffix fs path project = Inr (fs(p \<mapsto> to_dict project))"
    by (simp add: save_def assms(1))
  moreover have "load (fs(p \<mapsto> to_dict project)) p = Inr project"
    by (rule load_to_dict [OF assms(2)])
  ultimately show ?thesis by blast
qed

theorem save_load_round_trip_witness:
  "target_path (\<lambda>p. []) (\<lambda>p s. Inr (p @ s)) ''layout'' = Inr ''layout.dio'' \<and>
   JNull \<notin> fm_radii ` set (pm_frames example_project) \<and>
   (\<exists>fs' loaded.
      save (\<lambda>p. []) (\<lambda>p s. Inr (p @ s)) Map.empty ''layout'' example_project = Inr fs' \<and>
      load fs' ''layout.dio'' = Inr loaded \<and>
      length (pm_frames loaded) = 2 \<and>
      fm_x (pm_frames loaded ! 1) = JInt (- 40) \<and>
      fm_radii (pm_frames loaded ! 1) =
        JObj [(''tl'', JInt 8), (''tr'', JInt 8), (''bl'', JInt 0), (''br'', JInt 0)])"
proof -
  have t: "target_path (\<lambda>p. []) (\<lambda>p s. Inr (p @ s)) ''layout'' = Inr ''layout.dio''"
    by (simp add: target_path_def)
  have r: "\<forall>f \<in> set (pm_frames example_project). fm_radii f \<noteq> JNull"
    by (simp add: example_project_def zero_radii_def)
  from save_load_round_trip [OF t r, of Map.empty]
  obtain fs' loaded where
    "save (\<lambda>p. []) (\<lambda>p s. Inr (p @ s)) Map.empty ''layout'' example_project = Inr fs'"
    "load fs' ''layout.dio'' = Inr loaded"
    "length (pm_frames loaded) = length (pm_frames example_project)"
    "\<forall>i < length (pm_frames example_project).
       fm_x (pm_frames loaded ! i) = fm_x (pm_frames example_project ! i) \<and>
       fm_radii (pm_frames loaded ! i) = fm_radii (pm_frames example_project ! i)"
    by blast
  then have main: "\<exists>fs' loaded.
      save (\<lambda>p. []) (\<lambda>p s. Inr (p @ s)) Map.empty ''layout'' example_project = Inr fs' \<and>
      load fs' ''layout.dio'' = Inr loaded \<and>
      length (pm_frames loaded) = 2 \<and>
      fm_x (pm_frames loaded ! 1) = JInt (- 40) \<and>
      fm_radii (pm_frames loaded ! 1) =
        JObj [(''tl'', JInt 8), (''tr'', JInt 8), (''bl'', JInt 0), (''br'', JInt 0)]"
    by (intro exI [of _ fs'] exI [of _ loaded]) (simp add: example_project_def)
  have nn: "JNull \<notin> fm_radii ` set (pm_frames example_project)"
    by (simp add: example_project_def zero_radii_def)
  show ?thesis by (rule conjI [OF t conjI [OF nn main]])
qed

section \<open>The frame manager: results\<close>

lemma remove_frame_filter:
  "distinct (map oid fs) \<Longrightarrow> remove_frame fid fs = filter (\<lambda>f. oid f \<noteq> fid) fs"
proof (induction fs)
  case Nil
  then show ?case by simp
next
  case (Cons f fs)
  show ?case
  proof (cases "oid f = fid")
    case True
    with Cons.prems have "\<forall>g \<in> set fs. oid g \<noteq> fid" by (auto simp: image_iff)
    then have "filter (\<lambda>f. oid f \<noteq> fid) fs = fs" by (simp add: filter_id_conv)
    with True show ?thesis by simp
  next
    case False
    with Cons show ?thesis by simp
  qed
qed

lemma remove_absent: "fid \<notin> set (map oid fs) \<Longrightarrow> filter (\<lambda>f. oid f \<noteq> fid) fs = fs"
  by (induction fs) auto

lemma length_renumber_from [simp]: "length (renumber_from i fs) = length fs"
  by (induction fs arbitrary: i) simp_all

lemma nth_renumber_from:
  "k < length fs \<Longrightarrow> renumber_from i fs ! k = set_frame_number (fs ! k) (i + int k)"
proof (induction fs arbitrary: i k)
  case Nil
  then show ?case by simp
next
  case (Cons f fs)
  then show ?case by (cases k) (simp_all add: algebra_simps)
qed

lemma nth_renumber_from_1:
  "k < length fs \<Longrightarrow> renumber_from 1 fs ! k = set_frame_number (fs ! k) (int k + 1)"
  by (simp add: nth_renumber_from add.commute)

lemma set_frame_number_fields:
  "oid (set_frame_number f n) = oid f"
  "frame_number (set_frame_number f n) = n"
  "title (set_frame_number f n) =
     (if title f = default_title (frame_number f) then default_title n else title f)"
  by (simp_all add: set_frame_number_def Let_def)

lemma frames_on_frame_closing:
  "distinct (map oid (frames m)) \<Longrightarrow>
   frames (on_frame_closing m fid) = renumber_from 1 (remaining fid m)"
  by (simp add: on_frame_closing_def Let_def remaining_def remove_frame_filter remove_absent)

lemma selected_on_frame_closing:
  "distinct (map oid (frames m)) \<Longrightarrow>
   selected_frame (on_frame_closing m fid) =
     (if selected_frame m = Some fid
      then (if remaining fid m = [] then None else Some (oid (last (remaining fid m))))
      else selected_frame m)"
  by (simp add: on_frame_closing_def Let_def remaining_def remove_frame_filter remove_absent)

text \<open>
  Claim C8. Closing a frame takes it out of the list and keeps the others in their order;
  if it was the selected frame, the selection becomes the last remaining frame, or none
  when nothing remains; the remaining frames are numbered \<open>1, 2, \<dots>\<close> in list order, and
  a frame's title is rewritten to the default title of its new number exactly when it
  was the default title of its old number, and is left alone otherwise. The premise is that
  the list holds each frame object once.
\<close>

theorem delete_frame_renumbers:
  assumes "distinct (map oid (frames m))"
  shows "length (frames (on_frame_closing m fid)) = length (remaining fid m) \<and>
    (\<forall>i < length (remaining fid m).
       oid (frames (on_frame_closing m fid) ! i) = oid (remaining fid m ! i) \<and>
       frame_number (frames (on_frame_closing m fid) ! i) = int i + 1 \<and>
       title (frames (on_frame_closing m fid) ! i) =
         (if title (remaining fid m ! i) = default_title (frame_number (remaining fid m ! i))
          then default_title (int i + 1) else title (remaining fid m ! i))) \<and>
    selected_frame (on_frame_closing m fid) =
      (if selected_frame m = Some fid
       then (if remaining fid m = [] then None else Some (oid (last (remaining fid m))))
       else selected_frame m)"
  by (simp add: frames_on_frame_closing [OF assms] selected_on_frame_closing [OF assms]
      nth_renumber_from_1 set_frame_number_fields)

lemmas frame_eval_defs = MeasureFrame_init_def default_title_def str_int_def str_nat.simps
  set_frame_number_def mkRect_def FRAME_COLORS_def color_truthy_def

theorem delete_frame_renumbers_witness:
  "distinct (map oid (frames three_frame_manager)) \<and>
   length (frames (on_frame_closing three_frame_manager 1)) =
     length (remaining 1 three_frame_manager) \<and>
   map oid (frames (on_frame_closing three_frame_manager 1)) = [0, 2] \<and>
   map title (frames (on_frame_closing three_frame_manager 1)) =
     [JStr ''Frame 1'', JStr ''Frame 2''] \<and>
   map frame_number (frames (on_frame_closing three_frame_manager 1)) = [1, 2] \<and>
   selected_frame (on_frame_closing three_frame_manager 1) = Some 2 \<and>
   map title (frames (on_frame_closing
       (three_frame_manager\<lparr>frames := [numbered_frame 0,
          (numbered_frame 1)\<lparr>title := JStr ''Header''\<rparr>, numbered_frame 2]\<rparr>) 0)) =
     [JStr ''Header'', JStr ''Frame 2'']"
proof -
  have d: "distinct (map oid (frames three_frame_manager))"
    by (simp add: three_frame_manager_def numbered_frame_def MeasureFrame_init_def)
  note inst = delete_frame_renumbers [OF d, of 1]
  have len: "length (frames (on_frame_closing three_frame_manager 1)) =
      length (remaining 1 three_frame_manager)"
    using inst by (rule conjunct1)
  have rest: "map oid (frames (on_frame_closing three_frame_manager 1)) = [0, 2] \<and>
      map title (frames (on_frame_closing three_frame_manager 1)) =
        [JStr ''Frame 1'', JStr ''Frame 2''] \<and>
      map frame_number (frames (on_frame_closing three_frame_manager 1)) = [1, 2] \<and>
      selected_frame (on_frame_closing three_frame_manager 1) = Some 2 \<and>
      map title (frames (on_frame_closing
          (three_frame_manager\<lparr>frames := [numbered_frame 0,
             (numbered_frame 1)\<lparr>title := JStr ''Header''\<rparr>, numbered_frame 2]\<rparr>) 0)) =
        [JStr ''Header'', JStr ''Frame 2'']"
    by (simp add: three_frame_manager_def numbered_frame_def on_frame_closing_def
        frame_eval_defs Let_def)
  show ?thesis by (rule conjI [OF d conjI [OF len rest]])
qed

lemma palette_truthy:
  "i < 7 \<Longrightarrow> color_truthy (fst (FRAME_COLORS ! i)) \<and> color_truthy (snd (FRAME_COLORS ! i))"
proof -
  assume "i < 7"
  have "\<forall>c \<in> set FRAME_COLORS. color_truthy (fst c) \<and> color_truthy (snd c)"
    by (simp add: FRAME_COLORS_def color_truthy_def)
  moreover have "FRAME_COLORS ! i \<in> set FRAME_COLORS"
    using \<open>i < 7\<close> by (intro nth_mem) (simp add: FRAME_COLORS_def)
  ultimately show ?thesis by blast
qed

lemma length_FRAME_COLORS: "length FRAME_COLORS = 7"
  by (simp add: FRAME_COLORS_def)

lemma on_radius_ok:
  "any_positive (map snd kvs) = Inr b \<Longrightarrow>
   on_radius_value_changed f (JObj kvs) = (f\<lparr>corner_radii := JObj kvs, radius_active := b\<rparr>, None)"
  by (simp add: on_radius_value_changed_def)

text \<open>
  Claim C7, as the code has it. Duplicating a frame of the list whose title is a string
  and whose radii are a dictionary of numbers appends one new frame: its geometry is the
  original's translated by \<open>(20, 20)\<close>, its corner radii are the original's, its title is
  the original's title followed by \<open>" copy"\<close>, and its fill and border colours are the
  next pair of the palette, \<open>FRAME_COLORS[color_idx mod 7]\<close>. The size premises are the
  widget's size limits, which every frame satisfies.
\<close>

theorem duplicate_frame_offset:
  assumes "find (\<lambda>f. oid f = fid) (frames m) = Some f"
    and "10 \<le> qwidth (geom f)" and "qwidth (geom f) \<le> 4000"
    and "10 \<le> qheight (geom f)" and "qheight (geom f) \<le> 4000"
    and "title f = JStr t"
    and "corner_radii f = JObj kvs" and "any_positive (map snd kvs) = Inr b"
  shows "\<exists>m' g. handle_duplicate_frame fmt m fid = (m', None) \<and>
      frames m' = frames m @ [g] \<and>
      geom g = translated (geom f) 20 20 \<and>
      corner_radii g = corner_radii f \<and>
      title g = JStr (t @ '' copy'') \<and>
      bg_color g = fst (FRAME_COLORS ! (color_idx m mod 7)) \<and>
      border_color g = snd (FRAME_COLORS ! (color_idx m mod 7))"
proof -
  obtain bg border where pal: "FRAME_COLORS ! (color_idx m mod 7) = (bg, border)"
    by (cases "FRAME_COLORS ! (color_idx m mod 7)")
  have tr: "color_truthy bg" "color_truthy border"
    using palette_truthy [of "color_idx m mod 7"] pal by simp_all
  show ?thesis
    using assms tr
    by (simp add: handle_duplicate_frame_def length_FRAME_COLORS pal Let_def on_radius_ok
        format_value_def set_title_def setGeometry_def show_widget_def select_frame_def
        MeasureFrame_init_def translated_def mkRect_def bounded_id)
qed


lemmas manager_eval_defs = one_frame_manager_def first_frame_def MeasureFrame_init_def
  default_title_def str_int_def str_nat.simps mkRect_def FRAME_COLORS_def color_truthy_def
  zero_radii_def default_settings_def bounded_def MIN_SIZE_def MAX_SIZE_def

theorem duplicate_frame_offset_witness:
  "find (\<lambda>f. oid f = 0) (frames one_frame_manager) = Some first_frame \<and>
   geom first_frame = mkRect 100 100 200 200 \<and>
   title first_frame = JStr ''Frame 1'' \<and>
   corner_radii first_frame = JObj [(''tl'', JInt 0), (''tr'', JInt 0), (''bl'', JInt 0), (''br'', JInt 0)] \<and>
   any_positive (map snd [(''tl'', JInt 0), (''tr'', JInt 0), (''bl'', JInt 0), (''br'', JInt 0)]) = Inr False \<and>
   (\<exists>m' g. handle_duplicate_frame (\<lambda>v. []) one_frame_manager 0 = (m', None) \<and>
      frames m' = frames one_frame_manager @ [g] \<and>
      geom g = mkRect 120 120 200 200 \<and>
      corner_radii g = corner_radii first_frame \<and>
      title g = JStr ''Frame 1 copy'' \<and>
      bg_color g = QColor 46 204 113 40 \<and>
      border_color g = QColor 46 204 113 220)"
proof -
  have h1: "find (\<lambda>f. oid f = 0) (frames one_frame_manager) = Some first_frame"
    by (simp add: manager_eval_defs)
  have g: "geom first_frame = mkRect 100 100 200 200"
    by (simp add: manager_eval_defs)
  have h2: "10 \<le> qwidth (geom first_frame)" "qwidth (geom first_frame) \<le> 4000"
    "10 \<le> qheight (geom first_frame)" "qheight (geom first_frame) \<le> 4000"
    by (simp_all add: manager_eval_defs)
  have h3: "title first_frame = JStr ''Frame 1''"
    by (simp add: manager_eval_defs)
  have h4: "corner_radii first_frame =
      JObj [(''tl'', JInt 0), (''tr'', JInt 0), (''bl'', JInt 0), (''br'', JInt 0)]"
    by (simp add: manager_eval_defs)
  have h5: "any_positive (map snd [(''tl'', JInt 0), (''tr'', JInt 0), (''bl'', JInt 0),
      (''br'', JInt 0)]) = Inr False"
    by simp
  from duplicate_frame_offset [OF h1 h2 h3 h4 h5, of "\<lambda>v. []"]
  obtain m' g' where r: "handle_duplicate_frame (\<lambda>v. []) one_frame_manager 0 = (m', None)"
    "frames m' = frames one_frame_manager @ [g']"
    "geom g' = translated (geom first_frame) 20 20"
    "corner_radii g' = corner_radii first_frame"
    "title g' = JStr (''Frame 1'' @ '' copy'')"
    "bg_color g' = fst (FRAME_COLORS ! (color_idx one_frame_manager mod 7))"
    "border_color g' = snd (FRAME_COLORS ! (color_idx one_frame_manager mod 7))"
    by blast
  have "geom g' = mkRect 120 120 200 200" "title g' = JStr ''Frame 1 copy''"
    "bg_color g' = QColor 46 204 113 40" "border_color g' = QColor 46 204 113 220"
    using r(3,5,6,7) by (simp_all add: g translated_def mkRect_def one_frame_manager_def
        FRAME_COLORS_def)
  with r(1,2,4) have main: "\<exists>m' g. handle_duplicate_frame (\<lambda>v. []) one_frame_manager 0 = (m', None) \<and>
      frames m' = frames one_frame_manager @ [g] \<and>
      geom g = mkRect 120 120 200 200 \<and>
      corner_radii g = corner_radii first_frame \<and>
      title g = JStr ''Frame 1 copy'' \<and>
      bg_color g = QColor 46 204 113 40 \<and>
      border_color g = QColor 46 204 113 220"
    by blast
  show ?thesis
    by (rule conjI [OF h1 conjI [OF g conjI [OF h3 conjI [OF h4 conjI [OF h5 main]]]]])
qed

text \<open>
  Claim C7 as written fails on the colours: the duplicate of the first frame, which has the
  first palette colour, gets the second palette colour.
\<close>

theorem duplicate_colors_counterexample:
  "map bg_color (frames (fst (handle_duplicate_frame (\<lambda>v. []) one_frame_manager 0))) =
     [QColor 0 180 255 40, QColor 46 204 113 40] \<and>
   map border_color (frames (fst (handle_duplicate_frame (\<lambda>v. []) one_frame_manager 0))) =
     [QColor 0 180 255 220, QColor 46 204 113 220] \<and>
   bg_color (last (frames (fst (handle_duplicate_frame (\<lambda>v. []) one_frame_manager 0)))) \<noteq>
     bg_color first_frame \<and>
   border_color (last (frames (fst (handle_duplicate_frame (\<lambda>v. []) one_frame_manager 0)))) \<noteq>
     border_color first_frame"
  by (simp add: handle_duplicate_frame_def manager_eval_defs Let_def on_radius_value_changed_def
      format_value_def set_title_def setGeometry_def show_widget_def select_frame_def
      translated_def)

lemma validate_invalid:
  assumes "''version'' \<notin> fst ` set members \<or> ''frames'' \<notin> fst ` set members \<or>
      (\<forall>items. map_of members ''frames'' \<noteq> Some (JList items))"
  shows "validate (JObj members) = Inl ValueError"
  using assms
  by (auto simp: validate_def split: option.splits json.splits)

text \<open>
  Claim C6, as the code has it. When the top-level object of the file lacks \<open>version\<close> or
  \<open>frames\<close>, or its \<open>frames\<close> is not a list, the import shows an error and the manager
  is exactly as before: the frame list, the selected frame and the project path included.
\<close>

theorem import_invalid_file_keeps_state:
  assumes "fs path = Some (JObj members)"
    and "''version'' \<notin> fst ` set members \<or> ''frames'' \<notin> fst ` set members \<or>
      (\<forall>items. map_of members ''frames'' \<noteq> Some (JList items))"
  shows "import_design_from_path fs path m = (m, Some ValueError)"
  by (simp add: import_design_from_path_def load_def assms(1) validate_invalid [OF assms(2)])

theorem import_invalid_file_keeps_state_witness:
  "[''bad.dio'' \<mapsto> JObj [(''frames'', JList [])]] ''bad.dio'' = Some (JObj [(''frames'', JList [])]) \<and>
   ''version'' \<notin> fst ` set [(''frames'', JList [])] \<and>
   import_design_from_path [''bad.dio'' \<mapsto> JObj [(''frames'', JList [])]] ''bad.dio''
     one_frame_manager = (one_frame_manager, Some ValueError)"
proof -
  have a: "[''bad.dio'' \<mapsto> JObj [(''frames'', JList [])]] ''bad.dio'' =
      Some (JObj [(''frames'', JList [])])"
    by simp
  have b: "''version'' \<notin> fst ` set [(''frames'', JList [])]"
    by simp
  have c: "''version'' \<notin> fst ` set [(''frames'', JList [])] \<or>
      ''frames'' \<notin> fst ` set [(''frames'', JList [])] \<or>
      (\<forall>items. map_of [(''frames'', JList [])] ''frames'' \<noteq> Some (JList items))"
    using b by blast
  note inst = import_invalid_file_keeps_state
    [of "[''bad.dio'' \<mapsto> JObj [(''frames'', JList [])]]" "''bad.dio''"
        "[(''frames'', JList [])]" one_frame_manager, OF a c]
  show ?thesis
    by (rule conjI [OF a conjI [OF b inst]])
qed

text \<open>
  Claim C6 as written fails for a per-frame field of the wrong type: the validator does not
  look into the frames, so a file whose only frame has the string \<open>"wide"\<close> as its \<open>x\<close>
  passes it; the error is raised when the widget is given its geometry, after the current
  frames have been closed and the project path has been replaced.
\<close>

theorem import_wrong_type_counterexample:
  "snd (import_design_from_path
      [''bad.dio'' \<mapsto> JObj [(''version'', JStr ''1.0''),
         (''frames'', JList [JObj [(''id'', JStr ''a''), (''x'', JStr ''wide'')]])]]
      ''bad.dio'' one_frame_manager) = Some TypeError \<and>
   frames (fst (import_design_from_path
      [''bad.dio'' \<mapsto> JObj [(''version'', JStr ''1.0''),
         (''frames'', JList [JObj [(''id'', JStr ''a''), (''x'', JStr ''wide'')]])]]
      ''bad.dio'' one_frame_manager)) = [] \<and>
   frames one_frame_manager = [first_frame] \<and>
   selected_frame (fst (import_design_from_path
      [''bad.dio'' \<mapsto> JObj [(''version'', JStr ''1.0''),
         (''frames'', JList [JObj [(''id'', JStr ''a''), (''x'', JStr ''wide'')]])]]
      ''bad.dio'' one_frame_manager)) = None \<and>
   selected_frame one_frame_manager = Some 0 \<and>
   project_path (fst (import_design_from_path
      [''bad.dio'' \<mapsto> JObj [(''version'', JStr ''1.0''),
         (''frames'', JList [JObj [(''id'', JStr ''a''), (''x'', JStr ''wide'')]])]]
      ''bad.dio'' one_frame_manager)) = Some ''bad.dio'' \<and>
   project_path one_frame_manager = Some ''old.dio''"
  by (simp add: import_design_from_path_def load_def validate_def frame_keys_def
      FrameModel_init_def kwarg_def close_all_def on_frame_closing_def make_overlay_def
      setGeometry_args_def is_number_def manager_eval_defs Let_def)

end
